theory Spec2Isabelle
  imports Main
begin

section \<open>Telegram execution context: update classification and reply routing\<close>

text \<open>
  The development embeds the class \<open>TelegramExecutionContext\<close>: the classifier
  \<open>determineUpdateType\<close>, the accessors \<open>getChatId\<close> and \<open>getMessageId\<close>, and the
  reply operations \<open>reply\<close>, \<open>replyPhoto\<close>, \<open>replyVideo\<close>, \<open>sendTyping\<close>,
  \<open>replyInline\<close>, \<open>answerInlineQuery\<close>, \<open>getFile\<close> and \<open>sendErrorMessage\<close>.
\<close>

subsection \<open>JavaScript values the class touches\<close>

text \<open>
  JavaScript truthiness decides every branch of the classifier and of the accessors:
  a string is truthy when it is not empty, a number when it is not zero, an object or
  an array whenever it is there. An optional field is an \<open>option\<close>; the optional chain
  \<open>a?.b\<close> is \<open>None\<close> when \<open>a\<close> is.
\<close>

definition truthy_string :: "string option \<Rightarrow> bool" where
  "truthy_string s = (case s of None \<Rightarrow> False | Some t \<Rightarrow> t \<noteq> [])"

definition truthy_number :: "int option \<Rightarrow> bool" where
  "truthy_number n = (case n of None \<Rightarrow> False | Some i \<Rightarrow> i \<noteq> 0)"

definition truthy_object :: "'a option \<Rightarrow> bool" where
  "truthy_object x = (case x of None \<Rightarrow> False | Some _ \<Rightarrow> True)"

text \<open>
  \<open>Number.prototype.toString\<close> on the integers Telegram uses as identifiers: the
  decimal digits, with a leading minus sign for a negative number.
\<close>

definition digit_char :: "nat \<Rightarrow> char" where
  "digit_char d = ''0123456789'' ! d"

function digits :: "nat \<Rightarrow> string" where
  "digits n = (if n < 10 then [digit_char n] else digits (n div 10) @ [digit_char (n mod 10)])"
  by pat_completeness auto
termination
  by (relation "measure (\<lambda>n. n)") auto

definition toString :: "int \<Rightarrow> string" where
  "toString i = (if i < 0 then CHR ''-'' # digits (nat (- i)) else digits (nat i))"

subsection \<open>The update and the context\<close>

text \<open>
  Modelled from the spec: the interfaces \<open>TelegramUpdate\<close>, \<open>TelegramMessage\<close>,
  \<open>TelegramChat\<close>, \<open>TelegramInlineQuery\<close>, \<open>TelegramCallbackQuery\<close> and
  \<open>TelegramBusinessMessage\<close>, whose declarations \<open>TelegramExecutionContext\<close> imports
  from \<open>./types\<close>. The records carry the fields that \<open>TelegramExecutionContext\<close>
  reads, optional where the class reads them through \<open>?.\<close> or tests them, with the
  types of the spec's scenarios: chat and message identifiers are numbers
  (\<open>chat.id=42\<close>, \<open>message_id=7\<close>), the identifiers of an inline query, a callback
  query and a business connection are strings (\<open>inline_query.id="q1"\<close>,
  \<open>business_connection_id="bc1"\<close>). The numbers are integers, as identifiers are. A
  field called \<open>id\<close> is prefixed with the name of its interface, the \<open>text\<close> of a
  message is \<open>message_text\<close>, the \<open>message\<close> of a callback query is
  \<open>callback_message\<close> and the \<open>chat\<close> of a business message is \<open>business_chat\<close>.
  A photo is the list of its sizes and a document is one file, each given by a file id.
\<close>

record TelegramChat =
  chat_id :: int

record TelegramMessage =
  message_id :: int
  chat :: TelegramChat
  message_text :: "string option"
  photo :: "string list option"
  document :: "string option"

record TelegramInlineQuery =
  inline_query_id :: string
  query :: string

record TelegramCallbackQuery =
  callback_query_id :: string
  callback_message :: TelegramMessage

record TelegramBusinessMessage =
  business_connection_id :: string
  business_chat :: TelegramChat

record TelegramUpdate =
  message :: "TelegramMessage option"
  inline_query :: "TelegramInlineQuery option"
  callback_query :: "TelegramCallbackQuery option"
  business_message :: "TelegramBusinessMessage option"

text \<open>
  Modelled from the spec: the bot identity (\<open>TelegramBot\<close>, imported from
  \<open>./telegram_bot.js\<close>), of which the class uses \<open>bot.api.toString()\<close>, the endpoint
  every call is sent to, and \<open>bot.token\<close>.
\<close>

record TelegramBot =
  bot_api :: string
  bot_token :: string

record TelegramExecutionContext =
  bot :: TelegramBot
  update :: TelegramUpdate
  update_type :: string

subsection \<open>Outbound calls\<close>

text \<open>
  Modelled from the spec: the result objects of an inline answer (an article, a photo or
  a video result), whose classes \<open>TelegramExecutionContext\<close> imports from \<open>./types\<close>;
  each constructor keeps the arguments the class is built from, an article its content,
  title and parse mode. \<open>Raw\<close> stands for a result that a caller of
  \<open>answerInlineQuery\<close> supplies.
\<close>

datatype InlineQueryResult =
  Article string string string
| PhotoResult string
| VideoResult string
| Raw string

datatype param =
  PString string
| PNumber int
| PBoolean bool
| PResults "InlineQueryResult list"

type_synonym params = "string \<rightharpoonup> param"

text \<open>
  A call of a method of \<open>TelegramApi\<close>: the endpoint, the parameter mapping and, for
  \<open>getFile\<close>, the token.
\<close>

datatype api_call =
  SendMessage string params
| SendPhoto string params
| SendVideo string params
| SendChatAction string params
| AnswerInline string params
| GetFile string params string

datatype js_error = Error string

datatype response = Response string

text \<open>
  The class \<open>TelegramApi\<close> is imported from \<open>./telegram_api.js\<close>; its behaviour is a
  parameter of every operation: given the calls made so far and the call made now, it
  either throws or returns a response. With the fields of the update typed as above,
  building a parameter mapping cannot throw, so the API is the only source of errors.
\<close>

type_synonym TelegramApi = "api_call list \<Rightarrow> api_call \<Rightarrow> js_error + response"

text \<open>
  What an operation leaves behind: the calls made to the API, in order, and the lines
  written with \<open>console.error\<close> (the label and the error logged).
\<close>

record world =
  calls :: "api_call list"
  console :: "(string \<times> js_error) list"

type_synonym 'a io = "world \<Rightarrow> (js_error + 'a) \<times> world"

definition ret :: "'a \<Rightarrow> 'a io" where
  "ret v w = (Inr v, w)"

definition throw :: "js_error \<Rightarrow> 'a io" where
  "throw e w = (Inl e, w)"

definition bind :: "'a io \<Rightarrow> ('a \<Rightarrow> 'b io) \<Rightarrow> 'b io" where
  "bind m f w = (case m w of (Inl e, w') \<Rightarrow> (Inl e, w') | (Inr v, w') \<Rightarrow> f v w')"

definition try_catch :: "'a io \<Rightarrow> (js_error \<Rightarrow> 'a io) \<Rightarrow> 'a io" where
  "try_catch m h w = (case m w of (Inl e, w') \<Rightarrow> h e w' | (Inr v, w') \<Rightarrow> (Inr v, w'))"

definition console_error :: "string \<Rightarrow> js_error \<Rightarrow> unit io" where
  "console_error label e w = (Inr (), w\<lparr>console := console w @ [(label, e)]\<rparr>)"

definition await :: "TelegramApi \<Rightarrow> api_call \<Rightarrow> response io" where
  "await api c w = (api (calls w) c, w\<lparr>calls := calls w @ [c]\<rparr>)"

text \<open>\<open>return await this.api.method(...)\<close>: the response is the operation's result.\<close>

definition return_await :: "TelegramApi \<Rightarrow> api_call \<Rightarrow> response option io" where
  "return_await api c = bind (await api c) (\<lambda>r. ret (Some r))"

subsection \<open>The fixed notification texts\<close>

text \<open>
  The four notification texts are Chinese sentences; they are given by their UTF-8
  bytes. In English: "sending the video failed, please try again later", "fetching the
  file failed, ...", "sending the picture failed, ..." and "sending the message
  failed, ...".
\<close>

definition utf8 :: "nat list \<Rightarrow> string" where
  "utf8 bs = map char_of bs"

definition video_failed_text :: string where
  "video_failed_text = utf8 [232, 167, 134, 233, 162, 145, 229, 143, 145, 233, 128, 129,
     229, 164, 177, 232, 180, 165, 239, 188, 140, 232, 175, 183, 231, 168, 141, 229, 144,
     142, 229, 134, 141, 232, 175, 149, 227, 128, 130]"

definition file_failed_text :: string where
  "file_failed_text = utf8 [232, 142, 183, 229, 143, 150, 230, 150, 135, 228, 187, 182,
     229, 164, 177, 232, 180, 165, 239, 188, 140, 232, 175, 183, 231, 168, 141, 229, 144,
     142, 229, 134, 141, 232, 175, 149, 227, 128, 130]"

definition photo_failed_text :: string where
  "photo_failed_text = utf8 [229, 155, 190, 231, 137, 135, 229, 143, 145, 233, 128, 129,
     229, 164, 177, 232, 180, 165, 239, 188, 140, 232, 175, 183, 231, 168, 141, 229, 144,
     142, 229, 134, 141, 232, 175, 149, 227, 128, 130]"

definition message_failed_text :: string where
  "message_failed_text = utf8 [230, 182, 136, 230, 129, 175, 229, 143, 145, 233, 128, 129,
     229, 164, 177, 232, 180, 165, 239, 188, 140, 232, 175, 183, 231, 168, 141, 229, 144,
     142, 229, 134, 141, 232, 175, 149, 227, 128, 130]"

subsection \<open>The classifier and the accessors\<close>

definition determineUpdateType :: "TelegramUpdate \<Rightarrow> string" where
  "determineUpdateType u =
     (if truthy_object (Option.bind (message u) photo) then ''photo''
      else if truthy_string (Option.bind (message u) message_text) then ''message''
      else if truthy_string (map_option query (inline_query u)) then ''inline''
      else if truthy_object (Option.bind (message u) document) then ''document''
      else if truthy_string (map_option callback_query_id (callback_query u)) then ''callback''
      else if truthy_object (business_message u) then ''business_message''
      else '''')"

text \<open>The constructor stores the bot and the update and classifies the update once.\<close>

definition new_context :: "TelegramBot \<Rightarrow> TelegramUpdate \<Rightarrow> TelegramExecutionContext" where
  "new_context b u = \<lparr>bot = b, update = u, update_type = determineUpdateType u\<rparr>"

definition getChatId :: "TelegramExecutionContext \<Rightarrow> string" where
  "getChatId c =
     (if truthy_number (map_option (\<lambda>m. chat_id (chat m)) (message (update c)))
      then toString (chat_id (chat (the (message (update c)))))
      else if truthy_number (map_option (\<lambda>b. chat_id (business_chat b)) (business_message (update c)))
      then toString (chat_id (business_chat (the (business_message (update c)))))
      else '''')"

definition getMessageId :: "TelegramExecutionContext \<Rightarrow> string" where
  "getMessageId c =
     (case message (update c) of None \<Rightarrow> '''' | Some m \<Rightarrow> toString (message_id m))"

text \<open>
  \<open>this.update.business_message?.business_connection_id.toString() ?? ''\<close> and
  \<open>this.update.inline_query?.id.toString() ?? ''\<close>, which several operations repeat.
\<close>

definition business_connection_id_or_empty :: "TelegramExecutionContext \<Rightarrow> string" where
  "business_connection_id_or_empty c =
     (case business_message (update c) of None \<Rightarrow> '''' | Some b \<Rightarrow> business_connection_id b)"

definition inline_query_id_or_empty :: "TelegramExecutionContext \<Rightarrow> string" where
  "inline_query_id_or_empty c =
     (case inline_query (update c) of None \<Rightarrow> '''' | Some q \<Rightarrow> inline_query_id q)"

definition callback_chat_id :: "TelegramExecutionContext \<Rightarrow> int option" where
  "callback_chat_id c =
     map_option (\<lambda>q. chat_id (chat (callback_message q))) (callback_query (update c))"

subsection \<open>The reply operations\<close>

text \<open>
  Each operation takes the API's behaviour, the context and its own arguments. The
  arguments \<open>message\<close>, \<open>photo\<close> and \<open>video\<close> of the source carry a prime here, since
  the unprimed names are fields of the records above. An object literal
  \<open>{...options, k: v}\<close> is the mapping \<open>options\<close> overridden at \<open>k\<close>.
\<close>

definition sendErrorMessage :: "TelegramApi \<Rightarrow> TelegramExecutionContext \<Rightarrow> string \<Rightarrow> response option io" where
  "sendErrorMessage api c errorMessage =
     try_catch
       (if update_type c = ''message'' \<or> update_type c = ''photo'' \<or> update_type c = ''document''
        then return_await api (SendMessage (bot_api (bot c))
               [''chat_id'' \<mapsto> PString (getChatId c),
                ''text'' \<mapsto> PString errorMessage,
                ''parse_mode'' \<mapsto> PString []])
        else if update_type c = ''business_message''
        then return_await api (SendMessage (bot_api (bot c))
               [''chat_id'' \<mapsto> PString (getChatId c),
                ''text'' \<mapsto> PString errorMessage,
                ''business_connection_id'' \<mapsto> PString (business_connection_id_or_empty c),
                ''parse_mode'' \<mapsto> PString []])
        else if update_type c = ''callback'' \<and> truthy_number (callback_chat_id c)
        then return_await api (SendMessage (bot_api (bot c))
               [''chat_id'' \<mapsto> PString (toString (the (callback_chat_id c))),
                ''text'' \<mapsto> PString errorMessage,
                ''parse_mode'' \<mapsto> PString []])
        else ret None)
       (\<lambda>error. bind (console_error ''Failed to send error message:'' error) (\<lambda>_. ret None))"

definition replyVideo :: "TelegramApi \<Rightarrow> TelegramExecutionContext \<Rightarrow> string \<Rightarrow> params \<Rightarrow> response option io" where
  "replyVideo api c video' options =
     try_catch
       (if update_type c = ''message''
        then return_await api (SendVideo (bot_api (bot c))
               (options ++
                [''chat_id'' \<mapsto> PString (getChatId c),
                 ''reply_to_message_id'' \<mapsto> PString (getMessageId c),
                 ''video'' \<mapsto> PString video']))
        else if update_type c = ''inline''
        then return_await api (AnswerInline (bot_api (bot c))
               (options ++
                [''inline_query_id'' \<mapsto> PString (inline_query_id_or_empty c),
                 ''results'' \<mapsto> PResults [VideoResult video']]))
        else ret None)
       (\<lambda>error. bind (console_error ''Error in replyVideo:'' error)
          (\<lambda>_. bind (sendErrorMessage api c video_failed_text) (\<lambda>_. ret None)))"

definition getFile :: "TelegramApi \<Rightarrow> TelegramExecutionContext \<Rightarrow> string \<Rightarrow> response io" where
  "getFile api c file_id =
     try_catch
       (await api (GetFile (bot_api (bot c)) [''file_id'' \<mapsto> PString file_id] (bot_token (bot c))))
       (\<lambda>error. bind (console_error ''Error in getFile:'' error)
          (\<lambda>_. bind (sendErrorMessage api c file_failed_text) (\<lambda>_. throw error)))"

definition replyPhoto :: "TelegramApi \<Rightarrow> TelegramExecutionContext \<Rightarrow> string \<Rightarrow> string \<Rightarrow> params \<Rightarrow> response option io" where
  "replyPhoto api c photo' caption options =
     try_catch
       (if update_type c = ''photo'' \<or> update_type c = ''message''
        then return_await api (SendPhoto (bot_api (bot c))
               (options ++
                [''chat_id'' \<mapsto> PString (getChatId c),
                 ''reply_to_message_id'' \<mapsto> PString (getMessageId c),
                 ''photo'' \<mapsto> PString photo',
                 ''caption'' \<mapsto> PString caption]))
        else if update_type c = ''inline''
        then return_await api (AnswerInline (bot_api (bot c))
               [''inline_query_id'' \<mapsto> PString (inline_query_id_or_empty c),
                ''results'' \<mapsto> PResults [PhotoResult photo']])
        else ret None)
       (\<lambda>error. bind (console_error ''Error in replyPhoto:'' error)
          (\<lambda>_. bind (sendErrorMessage api c photo_failed_text) (\<lambda>_. ret None)))"

definition sendTyping :: "TelegramApi \<Rightarrow> TelegramExecutionContext \<Rightarrow> response option io" where
  "sendTyping api c =
     try_catch
       (if update_type c = ''message'' \<or> update_type c = ''photo'' \<or> update_type c = ''document''
        then return_await api (SendChatAction (bot_api (bot c))
               [''chat_id'' \<mapsto> PString (getChatId c),
                ''action'' \<mapsto> PString ''typing''])
        else if update_type c = ''business_message''
        then return_await api (SendChatAction (bot_api (bot c))
               [''business_connection_id'' \<mapsto> PString (business_connection_id_or_empty c),
                ''chat_id'' \<mapsto> PString (getChatId c),
                ''action'' \<mapsto> PString ''typing''])
        else ret None)
       (\<lambda>error. bind (console_error ''Error in sendTyping:'' error) (\<lambda>_. ret None))"

definition replyInline :: "TelegramApi \<Rightarrow> TelegramExecutionContext \<Rightarrow> string \<Rightarrow> string \<Rightarrow> string \<Rightarrow> response option io" where
  "replyInline api c title message' parse_mode =
     try_catch
       (if update_type c = ''inline''
        then return_await api (AnswerInline (bot_api (bot c))
               [''inline_query_id'' \<mapsto> PString (inline_query_id_or_empty c),
                ''results'' \<mapsto> PResults [Article message' title parse_mode]])
        else ret None)
       (\<lambda>error. bind (console_error ''Error in replyInline:'' error) (\<lambda>_. ret None))"

definition reply :: "TelegramApi \<Rightarrow> TelegramExecutionContext \<Rightarrow> string \<Rightarrow> string \<Rightarrow> params \<Rightarrow> response option io" where
  "reply api c message' parse_mode options =
     try_catch
       (if update_type c = ''message'' \<or> update_type c = ''photo'' \<or> update_type c = ''document''
        then return_await api (SendMessage (bot_api (bot c))
               (options ++
                [''chat_id'' \<mapsto> PString (getChatId c),
                 ''reply_to_message_id'' \<mapsto> PString (getMessageId c),
                 ''text'' \<mapsto> PString message',
                 ''parse_mode'' \<mapsto> PString parse_mode]))
        else if update_type c = ''business_message''
        then return_await api (SendMessage (bot_api (bot c))
               [''chat_id'' \<mapsto> PString (getChatId c),
                ''text'' \<mapsto> PString message',
                ''business_connection_id'' \<mapsto> PString (business_connection_id_or_empty c),
                ''parse_mode'' \<mapsto> PString parse_mode])
        else if update_type c = ''callback''
        then (if truthy_number (callback_chat_id c)
              then return_await api (SendMessage (bot_api (bot c))
                     (options ++
                      [''chat_id'' \<mapsto> PString (toString (the (callback_chat_id c))),
                       ''text'' \<mapsto> PString message',
                       ''parse_mode'' \<mapsto> PString parse_mode]))
              else ret None)
        else if update_type c = ''inline''
        then replyInline api c ''Response'' message' parse_mode
        else ret None)
       (\<lambda>error. bind (console_error ''Error in reply:'' error)
          (\<lambda>_. bind
             (try_catch
                (if update_type c = ''message'' \<or> update_type c = ''photo'' \<or> update_type c = ''document''
                 then bind (await api (SendMessage (bot_api (bot c))
                        [''chat_id'' \<mapsto> PString (getChatId c),
                         ''text'' \<mapsto> PString message_failed_text,
                         ''parse_mode'' \<mapsto> PString []]))
                        (\<lambda>_. ret ())
                 else ret ())
                (\<lambda>retryError. console_error ''Failed to send error message:'' retryError))
             (\<lambda>_. ret None)))"


subsection \<open>Vocabulary of the statements\<close>

text \<open>
  The calls an operation adds to the world it starts from, and running one operation
  after another, as a handler does with \<open>await\<close>.
\<close>

definition issued :: "'a io \<Rightarrow> world \<Rightarrow> api_call list" where
  "issued m w = drop (length (calls w)) (calls (snd (m w)))"

definition twice :: "'a io \<Rightarrow> 'a io" where
  "twice m = bind m (\<lambda>_. m)"

text \<open>
  The failure notification addressed by chat id alone, and the one that also carries
  the business-connection id.
\<close>

definition chat_notification :: "TelegramExecutionContext \<Rightarrow> string \<Rightarrow> api_call" where
  "chat_notification c t =
     SendMessage (bot_api (bot c))
       [''chat_id'' \<mapsto> PString (getChatId c),
        ''text'' \<mapsto> PString t,
        ''parse_mode'' \<mapsto> PString []]"

definition business_notification :: "TelegramExecutionContext \<Rightarrow> string \<Rightarrow> api_call" where
  "business_notification c t =
     SendMessage (bot_api (bot c))
       [''chat_id'' \<mapsto> PString (getChatId c),
        ''text'' \<mapsto> PString t,
        ''business_connection_id'' \<mapsto> PString (business_connection_id_or_empty c),
        ''parse_mode'' \<mapsto> PString []]"

subsection \<open>Concrete updates, bots and API behaviours\<close>

definition example_bot :: TelegramBot where
  "example_bot = \<lparr>bot_api = ''https://api.telegram.org/bot'', bot_token = ''secret''\<rparr>"

definition text_update :: TelegramUpdate where
  "text_update =
     \<lparr>message = Some \<lparr>message_id = 7, chat = \<lparr>chat_id = 42\<rparr>, message_text = Some ''hello'',
                       photo = None, document = None\<rparr>,
      inline_query = None, callback_query = None, business_message = None\<rparr>"

definition empty_text_update :: TelegramUpdate where
  "empty_text_update =
     \<lparr>message = Some \<lparr>message_id = 7, chat = \<lparr>chat_id = 42\<rparr>, message_text = Some [],
                       photo = None, document = None\<rparr>,
      inline_query = None, callback_query = None, business_message = None\<rparr>"

definition captioned_photo_update :: TelegramUpdate where
  "captioned_photo_update =
     \<lparr>message = Some \<lparr>message_id = 8, chat = \<lparr>chat_id = 42\<rparr>, message_text = Some ''look'',
                       photo = Some [''file1''], document = Some ''file2''\<rparr>,
      inline_query = None, callback_query = None, business_message = None\<rparr>"

definition photo_update :: TelegramUpdate where
  "photo_update =
     \<lparr>message = Some \<lparr>message_id = 8, chat = \<lparr>chat_id = 42\<rparr>, message_text = None,
                       photo = Some [''file1''], document = None\<rparr>,
      inline_query = None, callback_query = None, business_message = None\<rparr>"

text \<open>A message that carries neither text nor a photo nor a document, a sticker say.\<close>

definition sticker_update :: TelegramUpdate where
  "sticker_update =
     \<lparr>message = Some \<lparr>message_id = 9, chat = \<lparr>chat_id = 42\<rparr>, message_text = None,
                       photo = None, document = None\<rparr>,
      inline_query = None, callback_query = None, business_message = None\<rparr>"

definition zero_chat_update :: TelegramUpdate where
  "zero_chat_update =
     \<lparr>message = Some \<lparr>message_id = 7, chat = \<lparr>chat_id = 0\<rparr>, message_text = Some ''hello'',
                       photo = None, document = None\<rparr>,
      inline_query = None, callback_query = None, business_message = None\<rparr>"

definition inline_update :: TelegramUpdate where
  "inline_update =
     \<lparr>message = None,
      inline_query = Some \<lparr>inline_query_id = ''q1'', query = ''cats''\<rparr>,
      callback_query = None, business_message = None\<rparr>"

definition callback_update :: TelegramUpdate where
  "callback_update =
     \<lparr>message = None, inline_query = None,
      callback_query = Some \<lparr>callback_query_id = ''cb1'',
        callback_message = \<lparr>message_id = 3, chat = \<lparr>chat_id = 5\<rparr>, message_text = None,
                             photo = None, document = None\<rparr>\<rparr>,
      business_message = None\<rparr>"

definition callback_zero_chat_update :: TelegramUpdate where
  "callback_zero_chat_update =
     \<lparr>message = None, inline_query = None,
      callback_query = Some \<lparr>callback_query_id = ''cb1'',
        callback_message = \<lparr>message_id = 3, chat = \<lparr>chat_id = 0\<rparr>, message_text = None,
                             photo = None, document = None\<rparr>\<rparr>,
      business_message = None\<rparr>"

definition business_update :: TelegramUpdate where
  "business_update =
     \<lparr>message = None, inline_query = None, callback_query = None,
      business_message = Some \<lparr>business_connection_id = ''bc1'', business_chat = \<lparr>chat_id = 9\<rparr>\<rparr>\<rparr>"

definition api_ok :: TelegramApi where
  "api_ok history c = Inr (Response ''ok'')"

definition api_down :: TelegramApi where
  "api_down history c = Inl (Error ''network'')"

definition no_history :: world where
  "no_history = \<lparr>calls = [], console = []\<rparr>"

section \<open>Properties\<close>

subsection \<open>Evaluation lemmas\<close>

lemma digits_small: "n < 10 \<Longrightarrow> digits n = [digit_char n]"
  by simp

lemma digits_large: "\<not> n < 10 \<Longrightarrow> digits n = digits (n div 10) @ [digit_char (n mod 10)]"
  by (subst digits.simps) simp

lemmas toString_eval = toString_def digits_large digits_small digit_char_def

lemma toString_42: "toString 42 = ''42''"
  by (simp add: toString_eval del: digits.simps)

lemma toString_7: "toString 7 = ''7''"
  by (simp add: toString_eval del: digits.simps)

lemma toString_9: "toString 9 = ''9''"
  by (simp add: toString_eval del: digits.simps)

lemma toString_5: "toString 5 = ''5''"
  by (simp add: toString_eval del: digits.simps)

lemma digits_not_empty: "digits n \<noteq> []"
  by (subst digits.simps) simp

lemma toString_not_empty: "toString i \<noteq> []"
  by (simp add: toString_def digits_not_empty del: digits.simps)

lemma truthy_string_iff: "truthy_string s \<longleftrightarrow> (\<exists>t. s = Some t \<and> t \<noteq> [])"
  by (cases s) (simp_all add: truthy_string_def)

lemma truthy_object_iff: "truthy_object x \<longleftrightarrow> (\<exists>y. x = Some y)"
  by (cases x) (simp_all add: truthy_object_def)

lemma truthy_number_iff: "truthy_number n \<longleftrightarrow> (\<exists>i. n = Some i \<and> i \<noteq> 0)"
  by (cases n) (simp_all add: truthy_number_def)

lemmas io_defs = try_catch_def bind_def ret_def throw_def return_await_def await_def
  console_error_def

lemmas example_defs = example_bot_def text_update_def empty_text_update_def
  captioned_photo_update_def photo_update_def sticker_update_def zero_chat_update_def
  inline_update_def callback_update_def callback_zero_chat_update_def business_update_def
  api_ok_def api_down_def no_history_def

lemmas classify_eval = new_context_def determineUpdateType_def truthy_string_def
  truthy_object_def truthy_number_def

subsection \<open>The classifier\<close>

lemma has_photo_iff:
  "truthy_object (Option.bind (message u) photo) \<longleftrightarrow>
     (\<exists>m p. message u = Some m \<and> photo m = Some p)"
  by (cases "message u") (simp_all add: truthy_object_iff)

lemma has_text_iff:
  "truthy_string (Option.bind (message u) message_text) \<longleftrightarrow>
     (\<exists>m t. message u = Some m \<and> message_text m = Some t \<and> t \<noteq> [])"
  by (cases "message u") (simp_all add: truthy_string_iff)

lemma has_query_iff:
  "truthy_string (map_option query (inline_query u)) \<longleftrightarrow>
     (\<exists>q. inline_query u = Some q \<and> query q \<noteq> [])"
  by (cases "inline_query u") (simp_all add: truthy_string_iff)

lemma has_document_iff:
  "truthy_object (Option.bind (message u) document) \<longleftrightarrow>
     (\<exists>m d. message u = Some m \<and> document m = Some d)"
  by (cases "message u") (simp_all add: truthy_object_iff)

lemma has_callback_iff:
  "truthy_string (map_option callback_query_id (callback_query u)) \<longleftrightarrow>
     (\<exists>q. callback_query u = Some q \<and> callback_query_id q \<noteq> [])"
  by (cases "callback_query u") (simp_all add: truthy_string_iff)

lemma has_business_iff:
  "truthy_object (business_message u) \<longleftrightarrow> (\<exists>b. business_message u = Some b)"
  by (rule truthy_object_iff)

lemma classifier_chain:
  "determineUpdateType u =
     (if (\<exists>m p. message u = Some m \<and> photo m = Some p) then ''photo''
      else if (\<exists>m t. message u = Some m \<and> message_text m = Some t \<and> t \<noteq> []) then ''message''
      else if (\<exists>q. inline_query u = Some q \<and> query q \<noteq> []) then ''inline''
      else if (\<exists>m d. message u = Some m \<and> document m = Some d) then ''document''
      else if (\<exists>q. callback_query u = Some q \<and> callback_query_id q \<noteq> []) then ''callback''
      else if (\<exists>b. business_message u = Some b) then ''business_message''
      else [])"
  by (simp only: determineUpdateType_def has_photo_iff has_text_iff has_query_iff
      has_document_iff has_callback_iff has_business_iff)

lemma classifier_tags:
  "determineUpdateType u \<in>
     {''photo'', ''message'', ''inline'', ''document'', ''callback'', ''business_message'', []}"
  by (simp add: determineUpdateType_def)

text \<open>
  C1, as stated: the classifier returns \<open>message\<close> whenever no photo is present and a
  message text is present. It does not when the text is the empty string, which is
  falsy: the update below carries a message with text \<open>""\<close> and nothing else, and is
  classified as none.
\<close>

theorem classifier_empty_text_counterexample:
  "Option.bind (message empty_text_update) photo = None \<and>
   Option.bind (message empty_text_update) message_text \<noteq> None \<and>
   determineUpdateType empty_text_update = []"
  by (simp add: empty_text_update_def determineUpdateType_def truthy_string_def truthy_object_def)

text \<open>
  C1, amended: for every update the classifier returns exactly one of the seven tags, by
  first match in the order: a photo is present, \<open>photo\<close>; else a message text is present
  and not empty, \<open>message\<close>; else an inline query with a non-empty query is present,
  \<open>inline\<close>; else a document is present, \<open>document\<close>; else a callback query with a
  non-empty id is present, \<open>callback\<close>; else a business message is present,
  \<open>business_message\<close>; else the empty string. An update that satisfies several of the
  conditions gets the tag of the earliest.
\<close>

theorem classifier_precedence:
  "determineUpdateType u =
     (if (\<exists>m p. message u = Some m \<and> photo m = Some p) then ''photo''
      else if (\<exists>m t. message u = Some m \<and> message_text m = Some t \<and> t \<noteq> []) then ''message''
      else if (\<exists>q. inline_query u = Some q \<and> query q \<noteq> []) then ''inline''
      else if (\<exists>m d. message u = Some m \<and> document m = Some d) then ''document''
      else if (\<exists>q. callback_query u = Some q \<and> callback_query_id q \<noteq> []) then ''callback''
      else if (\<exists>b. business_message u = Some b) then ''business_message''
      else [])
   \<and> determineUpdateType u \<in>
       {''photo'', ''message'', ''inline'', ''document'', ''callback'', ''business_message'', []}"
  using classifier_chain [of u] classifier_tags [of u] by (rule conjI)

text \<open>
  The update below carries a photo, a text and a document at once; the photo decides.
\<close>

theorem classifier_precedence_witness:
  "determineUpdateType captioned_photo_update = ''photo''"
  using classifier_precedence [of captioned_photo_update]
  by (simp add: captioned_photo_update_def)

subsection \<open>The typing indicator\<close>

lemma sendTyping_direct:
  assumes "update_type c = ''message'' \<or> update_type c = ''photo'' \<or> update_type c = ''document''"
  shows "sendTyping api c w =
     (case api (calls w) (SendChatAction (bot_api (bot c))
             [''chat_id'' \<mapsto> PString (getChatId c), ''action'' \<mapsto> PString ''typing'']) of
        Inr r \<Rightarrow> (Inr (Some r), w\<lparr>calls := calls w @ [SendChatAction (bot_api (bot c))
             [''chat_id'' \<mapsto> PString (getChatId c), ''action'' \<mapsto> PString ''typing'']]\<rparr>)
      | Inl e \<Rightarrow> (Inr None, w\<lparr>calls := calls w @ [SendChatAction (bot_api (bot c))
             [''chat_id'' \<mapsto> PString (getChatId c), ''action'' \<mapsto> PString ''typing'']],
             console := console w @ [(''Error in sendTyping:'', e)]\<rparr>))"
  using assms by (auto simp add: sendTyping_def io_defs split: sum.splits)

lemma sendTyping_business:
  assumes "update_type c = ''business_message''"
  shows "sendTyping api c w =
     (case api (calls w) (SendChatAction (bot_api (bot c))
             [''business_connection_id'' \<mapsto> PString (business_connection_id_or_empty c),
              ''chat_id'' \<mapsto> PString (getChatId c), ''action'' \<mapsto> PString ''typing'']) of
        Inr r \<Rightarrow> (Inr (Some r), w\<lparr>calls := calls w @ [SendChatAction (bot_api (bot c))
             [''business_connection_id'' \<mapsto> PString (business_connection_id_or_empty c),
              ''chat_id'' \<mapsto> PString (getChatId c), ''action'' \<mapsto> PString ''typing'']]\<rparr>)
      | Inl e \<Rightarrow> (Inr None, w\<lparr>calls := calls w @ [SendChatAction (bot_api (bot c))
             [''business_connection_id'' \<mapsto> PString (business_connection_id_or_empty c),
              ''chat_id'' \<mapsto> PString (getChatId c), ''action'' \<mapsto> PString ''typing'']],
             console := console w @ [(''Error in sendTyping:'', e)]\<rparr>))"
  using assms by (auto simp add: sendTyping_def io_defs split: sum.splits)

lemma sendTyping_other:
  assumes "update_type c \<noteq> ''message''" and "update_type c \<noteq> ''photo''"
    and "update_type c \<noteq> ''document''" and "update_type c \<noteq> ''business_message''"
  shows "sendTyping api c w = (Inr None, w)"
  using assms by (simp add: sendTyping_def io_defs)

lemma sendTyping_direct_issued:
  assumes "update_type c = ''message'' \<or> update_type c = ''photo'' \<or> update_type c = ''document''"
  shows "issued (sendTyping api c) w = [SendChatAction (bot_api (bot c))
             [''chat_id'' \<mapsto> PString (getChatId c), ''action'' \<mapsto> PString ''typing'']]"
  by (simp add: issued_def sendTyping_direct [OF assms] split: sum.splits)

lemma sendTyping_business_issued:
  assumes "update_type c = ''business_message''"
  shows "issued (sendTyping api c) w = [SendChatAction (bot_api (bot c))
             [''business_connection_id'' \<mapsto> PString (business_connection_id_or_empty c),
              ''chat_id'' \<mapsto> PString (getChatId c), ''action'' \<mapsto> PString ''typing'']]"
  by (simp add: issued_def sendTyping_business [OF assms] split: sum.splits)

lemma business_kind_has_business_message:
  assumes "update_type (new_context b u) = ''business_message''"
  shows "\<exists>bm. business_message u = Some bm"
  using assms by (simp add: new_context_def classifier_chain split: if_splits)

lemma getChatId_business_update: "getChatId (new_context b business_update) = ''9''"
  by (simp add: getChatId_def new_context_def business_update_def truthy_number_def toString_9)

text \<open>
  C8: \<open>sendTyping\<close> routes by kind. For \<open>message\<close>, \<open>photo\<close> and \<open>document\<close> it issues
  one \<open>sendChatAction\<close> call with the chat id and the action \<open>typing\<close>; for
  \<open>business_message\<close> it issues one \<open>sendChatAction\<close> call whose mapping has the
  update's business-connection id, the chat id and the action \<open>typing\<close> (three keys, no
  reply-to message id), and a context of that kind always has a business message to
  take the id from; for every other kind it makes no call and returns null. For a
  business message in chat 9 over connection \<open>bc1\<close> the mapping is
  \<open>{business_connection_id: "bc1", chat_id: "9", action: "typing"}\<close>.
\<close>

theorem sendTyping_routing:
  "(update_type c = ''message'' \<or> update_type c = ''photo'' \<or> update_type c = ''document'' \<longrightarrow>
      issued (sendTyping api c) w =
        [SendChatAction (bot_api (bot c))
           [''chat_id'' \<mapsto> PString (getChatId c), ''action'' \<mapsto> PString ''typing'']])
   \<and> (\<forall>bm. update_type c = ''business_message'' \<and> business_message (update c) = Some bm \<longrightarrow>
      issued (sendTyping api c) w =
        [SendChatAction (bot_api (bot c))
           [''business_connection_id'' \<mapsto> PString (business_connection_id bm),
            ''chat_id'' \<mapsto> PString (getChatId c), ''action'' \<mapsto> PString ''typing'']])
   \<and> (update_type (new_context b u) = ''business_message'' \<longrightarrow> business_message u \<noteq> None)
   \<and> (update_type c \<noteq> ''message'' \<and> update_type c \<noteq> ''photo'' \<and> update_type c \<noteq> ''document''
        \<and> update_type c \<noteq> ''business_message'' \<longrightarrow>
      sendTyping api c w = (Inr None, w))
   \<and> update_type (new_context b business_update) = ''business_message''
   \<and> issued (sendTyping api (new_context b business_update)) w =
        [SendChatAction (bot_api b)
           [''business_connection_id'' \<mapsto> PString ''bc1'',
            ''chat_id'' \<mapsto> PString ''9'', ''action'' \<mapsto> PString ''typing'']]"
proof (intro conjI impI allI)
  assume "update_type c = ''message'' \<or> update_type c = ''photo'' \<or> update_type c = ''document''"
  then show "issued (sendTyping api c) w =
        [SendChatAction (bot_api (bot c))
           [''chat_id'' \<mapsto> PString (getChatId c), ''action'' \<mapsto> PString ''typing'']]"
    by (rule sendTyping_direct_issued)
next
  fix bm
  assume "update_type c = ''business_message'' \<and> business_message (update c) = Some bm"
  then show "issued (sendTyping api c) w =
        [SendChatAction (bot_api (bot c))
           [''business_connection_id'' \<mapsto> PString (business_connection_id bm),
            ''chat_id'' \<mapsto> PString (getChatId c), ''action'' \<mapsto> PString ''typing'']]"
    by (simp add: sendTyping_business_issued business_connection_id_or_empty_def)
next
  assume "update_type (new_context b u) = ''business_message''"
  then show "business_message u \<noteq> None"
    using business_kind_has_business_message by fastforce
next
  assume "update_type c \<noteq> ''message'' \<and> update_type c \<noteq> ''photo'' \<and> update_type c \<noteq> ''document''
        \<and> update_type c \<noteq> ''business_message''"
  then show "sendTyping api c w = (Inr None, w)"
    by (simp add: sendTyping_other)
next
  show kind: "update_type (new_context b business_update) = ''business_message''"
    by (simp add: classify_eval business_update_def)
  show "issued (sendTyping api (new_context b business_update)) w =
        [SendChatAction (bot_api b)
           [''business_connection_id'' \<mapsto> PString ''bc1'',
            ''chat_id'' \<mapsto> PString ''9'', ''action'' \<mapsto> PString ''typing'']]"
    by (simp add: sendTyping_business_issued [OF kind] getChatId_business_update
        business_connection_id_or_empty_def)
      (simp add: new_context_def business_update_def)
qed

text \<open>
  On a text message in chat 42, with an API that answers, the one call issued is the
  typing action for chat 42; on an inline query nothing is issued.
\<close>

theorem sendTyping_routing_witness:
  "update_type (new_context example_bot text_update) = ''message'' \<and>
   issued (sendTyping api_ok (new_context example_bot text_update)) no_history =
     [SendChatAction ''https://api.telegram.org/bot''
        [''chat_id'' \<mapsto> PString ''42'', ''action'' \<mapsto> PString ''typing'']] \<and>
   update_type (new_context example_bot inline_update) = ''inline'' \<and>
   sendTyping api_ok (new_context example_bot inline_update) no_history = (Inr None, no_history)"
proof -
  have kind: "update_type (new_context example_bot text_update) = ''message''"
    by (simp add: classify_eval text_update_def)
  have chat: "getChatId (new_context example_bot text_update) = ''42''"
    by (simp add: getChatId_def new_context_def text_update_def truthy_number_def toString_42)
  have inline: "update_type (new_context example_bot inline_update) = ''inline''"
    by (simp add: classify_eval inline_update_def)
  show ?thesis
    using sendTyping_routing [of "new_context example_bot text_update" api_ok no_history
        example_bot text_update]
      sendTyping_routing [of "new_context example_bot inline_update" api_ok no_history
        example_bot inline_update]
    by (simp add: kind chat inline) (simp add: new_context_def example_bot_def)
qed

lemma new_context_bot: "bot (new_context b u) = b"
  by (simp add: new_context_def)

lemma new_context_update: "update (new_context b u) = u"
  by (simp add: new_context_def)

lemma new_context_update_type: "update_type (new_context b u) = determineUpdateType u"
  by (simp add: new_context_def)

lemma sendTyping_calls_direct:
  assumes "update_type c = ''message'' \<or> update_type c = ''photo'' \<or> update_type c = ''document''"
  shows "calls (snd (sendTyping api c w)) = calls w @ [SendChatAction (bot_api (bot c))
             [''chat_id'' \<mapsto> PString (getChatId c), ''action'' \<mapsto> PString ''typing'']]"
  by (simp add: sendTyping_direct [OF assms] split: sum.splits)

lemma sendTyping_calls_business:
  assumes "update_type c = ''business_message''"
  shows "calls (snd (sendTyping api c w)) = calls w @ [SendChatAction (bot_api (bot c))
             [''business_connection_id'' \<mapsto> PString (business_connection_id_or_empty c),
              ''chat_id'' \<mapsto> PString (getChatId c), ''action'' \<mapsto> PString ''typing'']]"
  by (simp add: sendTyping_business [OF assms] split: sum.splits)

lemma sendTyping_never_throws: "\<exists>v w'. sendTyping api c w = (Inr v, w')"
  by (auto simp add: sendTyping_def io_defs split: sum.splits)

lemma twice_sendTyping:
  "calls (snd (twice (sendTyping api c) w)) =
     calls (snd (sendTyping api c (snd (sendTyping api c w))))"
proof -
  obtain v w' where first: "sendTyping api c w = (Inr v, w')"
    using sendTyping_never_throws by blast
  then show ?thesis
    by (simp add: twice_def bind_def)
qed

text \<open>
  C9, as stated: on every context two calls of \<open>sendTyping\<close> in sequence issue two
  typing-action calls. On the context of an inline query they issue none.
\<close>

theorem sendTyping_twice_counterexample:
  "update_type (new_context example_bot inline_update) = ''inline'' \<and>
   issued (twice (sendTyping api_ok (new_context example_bot inline_update))) no_history = []"
proof -
  have kind: "update_type (new_context example_bot inline_update) = ''inline''"
    by (simp add: classify_eval inline_update_def)
  then show ?thesis
    by (simp add: issued_def twice_sendTyping sendTyping_other)
qed

text \<open>
  C9, amended: on a context of kind \<open>message\<close>, \<open>photo\<close>, \<open>document\<close> or
  \<open>business_message\<close>, two calls of \<open>sendTyping\<close> in sequence issue two typing-action
  calls with the same parameter mapping, whatever the API answers to either (there is
  no state that would suppress the second); on a context of any other kind neither
  issues a call. The kind is the one the constructor computed from the update.
\<close>

theorem sendTyping_twice:
  "(update_type c = ''message'' \<or> update_type c = ''photo'' \<or> update_type c = ''document'' \<longrightarrow>
      issued (twice (sendTyping api c)) w =
        [SendChatAction (bot_api (bot c))
           [''chat_id'' \<mapsto> PString (getChatId c), ''action'' \<mapsto> PString ''typing''],
         SendChatAction (bot_api (bot c))
           [''chat_id'' \<mapsto> PString (getChatId c), ''action'' \<mapsto> PString ''typing'']])
   \<and> (update_type c = ''business_message'' \<longrightarrow>
      issued (twice (sendTyping api c)) w =
        [SendChatAction (bot_api (bot c))
           [''business_connection_id'' \<mapsto> PString (business_connection_id_or_empty c),
            ''chat_id'' \<mapsto> PString (getChatId c), ''action'' \<mapsto> PString ''typing''],
         SendChatAction (bot_api (bot c))
           [''business_connection_id'' \<mapsto> PString (business_connection_id_or_empty c),
            ''chat_id'' \<mapsto> PString (getChatId c), ''action'' \<mapsto> PString ''typing'']])
   \<and> (update_type c \<noteq> ''message'' \<and> update_type c \<noteq> ''photo'' \<and> update_type c \<noteq> ''document''
        \<and> update_type c \<noteq> ''business_message'' \<longrightarrow>
      issued (twice (sendTyping api c)) w = [])
   \<and> update_type (new_context b u) = determineUpdateType u"
proof (intro conjI impI)
  assume kind: "update_type c = ''message'' \<or> update_type c = ''photo'' \<or> update_type c = ''document''"
  show "issued (twice (sendTyping api c)) w =
        [SendChatAction (bot_api (bot c))
           [''chat_id'' \<mapsto> PString (getChatId c), ''action'' \<mapsto> PString ''typing''],
         SendChatAction (bot_api (bot c))
           [''chat_id'' \<mapsto> PString (getChatId c), ''action'' \<mapsto> PString ''typing'']]"
    by (simp add: issued_def twice_sendTyping sendTyping_calls_direct [OF kind])
next
  assume kind: "update_type c = ''business_message''"
  show "issued (twice (sendTyping api c)) w =
        [SendChatAction (bot_api (bot c))
           [''business_connection_id'' \<mapsto> PString (business_connection_id_or_empty c),
            ''chat_id'' \<mapsto> PString (getChatId c), ''action'' \<mapsto> PString ''typing''],
         SendChatAction (bot_api (bot c))
           [''business_connection_id'' \<mapsto> PString (business_connection_id_or_empty c),
            ''chat_id'' \<mapsto> PString (getChatId c), ''action'' \<mapsto> PString ''typing'']]"
    by (simp add: issued_def twice_sendTyping sendTyping_calls_business [OF kind])
next
  assume "update_type c \<noteq> ''message'' \<and> update_type c \<noteq> ''photo'' \<and> update_type c \<noteq> ''document''
        \<and> update_type c \<noteq> ''business_message''"
  then show "issued (twice (sendTyping api c)) w = []"
    by (simp add: issued_def twice_sendTyping sendTyping_other)
next
  show "update_type (new_context b u) = determineUpdateType u"
    by (simp add: new_context_def)
qed

text \<open>
  On a text message in chat 42 with the API down, both calls are made all the same and
  are equal.
\<close>

theorem sendTyping_twice_witness:
  "update_type (new_context example_bot text_update) = ''message'' \<and>
   issued (twice (sendTyping api_down (new_context example_bot text_update))) no_history =
     [SendChatAction ''https://api.telegram.org/bot''
        [''chat_id'' \<mapsto> PString ''42'', ''action'' \<mapsto> PString ''typing''],
      SendChatAction ''https://api.telegram.org/bot''
        [''chat_id'' \<mapsto> PString ''42'', ''action'' \<mapsto> PString ''typing'']]"
proof -
  have kind: "update_type (new_context example_bot text_update) = ''message''"
    by (simp add: classify_eval text_update_def)
  have chat: "getChatId (new_context example_bot text_update) = ''42''"
    by (simp add: getChatId_def new_context_def text_update_def truthy_number_def toString_42)
  have url: "bot_api (bot (new_context example_bot text_update)) = ''https://api.telegram.org/bot''"
    by (simp add: new_context_def example_bot_def)
  show ?thesis
    using sendTyping_twice [of "new_context example_bot text_update" api_down no_history
        example_bot text_update]
    by (simp add: kind chat url)
qed

subsection \<open>Text replies\<close>

lemma reply_direct:
  assumes "update_type c = ''message'' \<or> update_type c = ''photo'' \<or> update_type c = ''document''"
  shows "reply api c message' parse_mode options w =
     (case api (calls w) (SendMessage (bot_api (bot c))
             (options ++
              [''chat_id'' \<mapsto> PString (getChatId c),
               ''reply_to_message_id'' \<mapsto> PString (getMessageId c),
               ''text'' \<mapsto> PString message',
               ''parse_mode'' \<mapsto> PString parse_mode])) of
        Inr r \<Rightarrow>
          (Inr (Some r), w\<lparr>calls := calls w @ [SendMessage (bot_api (bot c))
             (options ++
              [''chat_id'' \<mapsto> PString (getChatId c),
               ''reply_to_message_id'' \<mapsto> PString (getMessageId c),
               ''text'' \<mapsto> PString message',
               ''parse_mode'' \<mapsto> PString parse_mode])]\<rparr>)
      | Inl e \<Rightarrow>
          (Inr None, w\<lparr>calls := calls w @ [SendMessage (bot_api (bot c))
             (options ++
              [''chat_id'' \<mapsto> PString (getChatId c),
               ''reply_to_message_id'' \<mapsto> PString (getMessageId c),
               ''text'' \<mapsto> PString message',
               ''parse_mode'' \<mapsto> PString parse_mode]),
             chat_notification c message_failed_text],
           console := console w @ (''Error in reply:'', e) #
             (case api (calls w @ [SendMessage (bot_api (bot c))
                 (options ++
                  [''chat_id'' \<mapsto> PString (getChatId c),
                   ''reply_to_message_id'' \<mapsto> PString (getMessageId c),
                   ''text'' \<mapsto> PString message',
                   ''parse_mode'' \<mapsto> PString parse_mode])])
                 (chat_notification c message_failed_text) of
                Inr r \<Rightarrow> []
              | Inl e' \<Rightarrow> [(''Failed to send error message:'', e')])\<rparr>))"
  using assms
  by (auto simp add: reply_def io_defs chat_notification_def split: sum.splits)

lemma reply_business:
  assumes "update_type c = ''business_message''"
  shows "reply api c message' parse_mode options w =
     (case api (calls w) (SendMessage (bot_api (bot c))
             [''chat_id'' \<mapsto> PString (getChatId c),
              ''text'' \<mapsto> PString message',
              ''business_connection_id'' \<mapsto> PString (business_connection_id_or_empty c),
              ''parse_mode'' \<mapsto> PString parse_mode]) of
        Inr r \<Rightarrow>
          (Inr (Some r), w\<lparr>calls := calls w @ [SendMessage (bot_api (bot c))
             [''chat_id'' \<mapsto> PString (getChatId c),
              ''text'' \<mapsto> PString message',
              ''business_connection_id'' \<mapsto> PString (business_connection_id_or_empty c),
              ''parse_mode'' \<mapsto> PString parse_mode]]\<rparr>)
      | Inl e \<Rightarrow>
          (Inr None, w\<lparr>calls := calls w @ [SendMessage (bot_api (bot c))
             [''chat_id'' \<mapsto> PString (getChatId c),
              ''text'' \<mapsto> PString message',
              ''business_connection_id'' \<mapsto> PString (business_connection_id_or_empty c),
              ''parse_mode'' \<mapsto> PString parse_mode]],
           console := console w @ [(''Error in reply:'', e)]\<rparr>))"
  using assms
  by (auto simp add: reply_def io_defs split: sum.splits)

lemma reply_callback:
  assumes "update_type c = ''callback''" and "callback_chat_id c = Some i" and "i \<noteq> 0"
  shows "reply api c message' parse_mode options w =
     (case api (calls w) (SendMessage (bot_api (bot c))
             (options ++
              [''chat_id'' \<mapsto> PString (toString i),
               ''text'' \<mapsto> PString message',
               ''parse_mode'' \<mapsto> PString parse_mode])) of
        Inr r \<Rightarrow>
          (Inr (Some r), w\<lparr>calls := calls w @ [SendMessage (bot_api (bot c))
             (options ++
              [''chat_id'' \<mapsto> PString (toString i),
               ''text'' \<mapsto> PString message',
               ''parse_mode'' \<mapsto> PString parse_mode])]\<rparr>)
      | Inl e \<Rightarrow>
          (Inr None, w\<lparr>calls := calls w @ [SendMessage (bot_api (bot c))
             (options ++
              [''chat_id'' \<mapsto> PString (toString i),
               ''text'' \<mapsto> PString message',
               ''parse_mode'' \<mapsto> PString parse_mode])],
           console := console w @ [(''Error in reply:'', e)]\<rparr>))"
  using assms
  by (auto simp add: reply_def io_defs truthy_number_def split: sum.splits)

lemma reply_callback_unaddressed:
  assumes "update_type c = ''callback''" and "\<not> truthy_number (callback_chat_id c)"
  shows "reply api c message' parse_mode options w = (Inr None, w)"
  using assms by (simp add: reply_def io_defs)

lemma replyInline_never_throws: "\<exists>v w'. replyInline api c title message' parse_mode w = (Inr v, w')"
  by (auto simp add: replyInline_def io_defs split: sum.splits)

lemma reply_inline:
  assumes "update_type c = ''inline''"
  shows "reply api c message' parse_mode options w =
     replyInline api c ''Response'' message' parse_mode w"
proof -
  obtain v w' where "replyInline api c ''Response'' message' parse_mode w = (Inr v, w')"
    using replyInline_never_throws by blast
  with assms show ?thesis
    by (simp add: reply_def try_catch_def)
qed

lemma reply_other:
  assumes "update_type c \<noteq> ''message''" and "update_type c \<noteq> ''photo''"
    and "update_type c \<noteq> ''document''" and "update_type c \<noteq> ''business_message''"
    and "update_type c \<noteq> ''callback''" and "update_type c \<noteq> ''inline''"
  shows "reply api c message' parse_mode options w = (Inr None, w)"
  using assms by (simp add: reply_def io_defs)



lemma example_kinds:
  "update_type (new_context b text_update) = ''message''"
  "update_type (new_context b photo_update) = ''photo''"
  "update_type (new_context b inline_update) = ''inline''"
  "update_type (new_context b callback_update) = ''callback''"
  "update_type (new_context b callback_zero_chat_update) = ''callback''"
  "update_type (new_context b business_update) = ''business_message''"
  "update_type (new_context b sticker_update) = []"
  "update_type (new_context b zero_chat_update) = ''message''"
  by (simp_all add: classify_eval example_defs)

lemma example_bot_url: "bot_api (bot (new_context example_bot u)) = ''https://api.telegram.org/bot''"
  by (simp add: new_context_def example_bot_def)

lemma text_update_ids:
  "getChatId (new_context b text_update) = ''42''"
  "getMessageId (new_context b text_update) = ''7''"
  by (simp_all add: getChatId_def getMessageId_def new_context_def text_update_def
      truthy_number_def toString_42 toString_7)

lemma callback_update_chat:
  "callback_chat_id (new_context b callback_update) = Some 5"
  "callback_chat_id (new_context b callback_zero_chat_update) = Some 0"
  by (simp_all add: callback_chat_id_def new_context_def callback_update_def
      callback_zero_chat_update_def)

lemma reply_direct_issued_ok:
  assumes "update_type c = ''message'' \<or> update_type c = ''photo'' \<or> update_type c = ''document''"
    and "api (calls w) (SendMessage (bot_api (bot c))
             (options ++
              [''chat_id'' \<mapsto> PString (getChatId c),
               ''reply_to_message_id'' \<mapsto> PString (getMessageId c),
               ''text'' \<mapsto> PString message',
               ''parse_mode'' \<mapsto> PString parse_mode])) = Inr r"
  shows "reply api c message' parse_mode options w =
          (Inr (Some r), w\<lparr>calls := calls w @ [SendMessage (bot_api (bot c))
             (options ++
              [''chat_id'' \<mapsto> PString (getChatId c),
               ''reply_to_message_id'' \<mapsto> PString (getMessageId c),
               ''text'' \<mapsto> PString message',
               ''parse_mode'' \<mapsto> PString parse_mode])]\<rparr>)"
  by (simp only: reply_direct [OF assms(1)] assms(2) sum.case)

lemma reply_direct_failed:
  assumes "update_type c = ''message'' \<or> update_type c = ''photo'' \<or> update_type c = ''document''"
    and "api (calls w) (SendMessage (bot_api (bot c))
             (options ++
              [''chat_id'' \<mapsto> PString (getChatId c),
               ''reply_to_message_id'' \<mapsto> PString (getMessageId c),
               ''text'' \<mapsto> PString message',
               ''parse_mode'' \<mapsto> PString parse_mode])) = Inl e"
  shows "reply api c message' parse_mode options w =
          (Inr None, w\<lparr>calls := calls w @ [SendMessage (bot_api (bot c))
             (options ++
              [''chat_id'' \<mapsto> PString (getChatId c),
               ''reply_to_message_id'' \<mapsto> PString (getMessageId c),
               ''text'' \<mapsto> PString message',
               ''parse_mode'' \<mapsto> PString parse_mode]),
             chat_notification c message_failed_text],
           console := console w @ (''Error in reply:'', e) #
             (case api (calls w @ [SendMessage (bot_api (bot c))
                 (options ++
                  [''chat_id'' \<mapsto> PString (getChatId c),
                   ''reply_to_message_id'' \<mapsto> PString (getMessageId c),
                   ''text'' \<mapsto> PString message',
                   ''parse_mode'' \<mapsto> PString parse_mode])])
                 (chat_notification c message_failed_text) of
                Inr r \<Rightarrow> []
              | Inl e' \<Rightarrow> [(''Failed to send error message:'', e')])\<rparr>)"
  by (simp only: reply_direct [OF assms(1)] assms(2) sum.case)

lemma reply_business_issued:
  assumes "update_type c = ''business_message''"
  shows "issued (reply api c message' parse_mode options) w =
          [SendMessage (bot_api (bot c))
             [''chat_id'' \<mapsto> PString (getChatId c),
              ''text'' \<mapsto> PString message',
              ''business_connection_id'' \<mapsto> PString (business_connection_id_or_empty c),
              ''parse_mode'' \<mapsto> PString parse_mode]]"
  by (simp add: issued_def reply_business [OF assms] split: sum.splits)

lemma reply_callback_issued:
  assumes "update_type c = ''callback''" and "callback_chat_id c = Some i" and "i \<noteq> 0"
  shows "issued (reply api c message' parse_mode options) w =
          [SendMessage (bot_api (bot c))
             (options ++
              [''chat_id'' \<mapsto> PString (toString i),
               ''text'' \<mapsto> PString message',
               ''parse_mode'' \<mapsto> PString parse_mode])]"
  by (simp add: issued_def reply_callback [OF assms] split: sum.splits)

text \<open>
  C2, as stated: on a context of kind \<open>callback\<close>, \<open>reply\<close> issues one \<open>sendMessage\<close>
  to the chat of the callback's message, with no \<open>reply_to_message_id\<close>. When that chat
  id is 0 the guard of the branch is false and nothing is sent; and when the caller's
  options have a \<open>reply_to_message_id\<close>, the branch spreads it into the mapping.
\<close>

theorem reply_routing_counterexample:
  "update_type (new_context example_bot callback_zero_chat_update) = ''callback'' \<and>
   reply api_ok (new_context example_bot callback_zero_chat_update) ''hi'' [] Map.empty no_history =
     (Inr None, no_history) \<and>
   update_type (new_context example_bot callback_update) = ''callback'' \<and>
   issued (reply api_ok (new_context example_bot callback_update) ''hi'' []
       [''reply_to_message_id'' \<mapsto> PNumber 1]) no_history =
     [SendMessage ''https://api.telegram.org/bot''
        [''reply_to_message_id'' \<mapsto> PNumber 1, ''chat_id'' \<mapsto> PString ''5'',
         ''text'' \<mapsto> PString ''hi'', ''parse_mode'' \<mapsto> PString []]]"
proof -
  have unaddressed: "\<not> truthy_number (callback_chat_id (new_context example_bot callback_zero_chat_update))"
    by (simp add: callback_update_chat truthy_number_def)
  have five: "(5::int) \<noteq> 0"
    by simp
  show ?thesis
    by (simp add: example_kinds reply_callback_unaddressed [OF example_kinds(5) unaddressed]
        reply_callback_issued [OF example_kinds(4) callback_update_chat(1) five]
        example_bot_url toString_5)
qed

text \<open>
  C2, amended: \<open>reply(message, parse_mode, options)\<close> routes by kind.
  For \<open>message\<close>, \<open>photo\<close> and \<open>document\<close> it first issues one \<open>sendMessage\<close> whose
  mapping is the options overridden with the context's chat id, a
  \<open>reply_to_message_id\<close> equal to the context's message id, the text and the parse
  mode; when that call returns, its response is the result and nothing else is issued.
  For \<open>business_message\<close> it issues exactly one \<open>sendMessage\<close> with the chat id, the
  text, the update's business-connection id and the parse mode, and no
  \<open>reply_to_message_id\<close>.
  For \<open>callback\<close>, when the chat id of the callback query's message is not zero, it
  issues exactly one \<open>sendMessage\<close> whose mapping is the options overridden with that
  chat id, the text and the parse mode, so that it has a \<open>reply_to_message_id\<close> only if
  the options have one; when that chat id is zero it makes no call and returns null.
  For \<open>inline\<close> it is \<open>replyInline\<close> with the title \<open>Response\<close>.
  For every other kind it makes no call and returns null.
  On a text message with chat id 42 and message id 7, \<open>reply("hi", "HTML")\<close> builds
  \<open>{chat_id: "42", reply_to_message_id: "7", text: "hi", parse_mode: "HTML"}\<close>.
\<close>

theorem reply_routing:
  "(update_type c = ''message'' \<or> update_type c = ''photo'' \<or> update_type c = ''document'' \<longrightarrow>
      (\<exists>rest. issued (reply api c message' parse_mode options) w =
         SendMessage (bot_api (bot c))
           (options ++
            [''chat_id'' \<mapsto> PString (getChatId c),
             ''reply_to_message_id'' \<mapsto> PString (getMessageId c),
             ''text'' \<mapsto> PString message',
             ''parse_mode'' \<mapsto> PString parse_mode]) # rest)
      \<and> (\<forall>r. api (calls w) (SendMessage (bot_api (bot c))
           (options ++
            [''chat_id'' \<mapsto> PString (getChatId c),
             ''reply_to_message_id'' \<mapsto> PString (getMessageId c),
             ''text'' \<mapsto> PString message',
             ''parse_mode'' \<mapsto> PString parse_mode])) = Inr r \<longrightarrow>
           reply api c message' parse_mode options w =
             (Inr (Some r), w\<lparr>calls := calls w @ [SendMessage (bot_api (bot c))
               (options ++
                [''chat_id'' \<mapsto> PString (getChatId c),
                 ''reply_to_message_id'' \<mapsto> PString (getMessageId c),
                 ''text'' \<mapsto> PString message',
                 ''parse_mode'' \<mapsto> PString parse_mode])]\<rparr>)))
   \<and> (\<forall>bm. update_type c = ''business_message'' \<and> business_message (update c) = Some bm \<longrightarrow>
      issued (reply api c message' parse_mode options) w =
        [SendMessage (bot_api (bot c))
           [''chat_id'' \<mapsto> PString (getChatId c),
            ''text'' \<mapsto> PString message',
            ''business_connection_id'' \<mapsto> PString (business_connection_id bm),
            ''parse_mode'' \<mapsto> PString parse_mode]])
   \<and> (\<forall>q. update_type c = ''callback'' \<and> callback_query (update c) = Some q
          \<and> chat_id (chat (callback_message q)) \<noteq> 0 \<longrightarrow>
      issued (reply api c message' parse_mode options) w =
        [SendMessage (bot_api (bot c))
           (options ++
            [''chat_id'' \<mapsto> PString (toString (chat_id (chat (callback_message q)))),
             ''text'' \<mapsto> PString message',
             ''parse_mode'' \<mapsto> PString parse_mode])]
      \<and> (options ++
            [''chat_id'' \<mapsto> PString (toString (chat_id (chat (callback_message q)))),
             ''text'' \<mapsto> PString message',
             ''parse_mode'' \<mapsto> PString parse_mode]) ''reply_to_message_id'' =
          options ''reply_to_message_id'')
   \<and> (\<forall>q. update_type c = ''callback'' \<and> callback_query (update c) = Some q
          \<and> chat_id (chat (callback_message q)) = 0 \<longrightarrow>
      reply api c message' parse_mode options w = (Inr None, w))
   \<and> (update_type c = ''inline'' \<longrightarrow>
      reply api c message' parse_mode options w =
        replyInline api c ''Response'' message' parse_mode w)
   \<and> (update_type c \<noteq> ''message'' \<and> update_type c \<noteq> ''photo'' \<and> update_type c \<noteq> ''document''
        \<and> update_type c \<noteq> ''business_message'' \<and> update_type c \<noteq> ''callback''
        \<and> update_type c \<noteq> ''inline'' \<longrightarrow>
      reply api c message' parse_mode options w = (Inr None, w))
   \<and> update_type (new_context b text_update) = ''message''
   \<and> (\<exists>rest. issued (reply api (new_context b text_update) ''hi'' ''HTML'' Map.empty) w =
         SendMessage (bot_api b)
           [''chat_id'' \<mapsto> PString ''42'', ''reply_to_message_id'' \<mapsto> PString ''7'',
            ''text'' \<mapsto> PString ''hi'', ''parse_mode'' \<mapsto> PString ''HTML''] # rest)"
proof -
  have first_call: "\<exists>rest. issued (reply api d message' parse_mode options) w =
         SendMessage (bot_api (bot d))
           (options ++
            [''chat_id'' \<mapsto> PString (getChatId d),
             ''reply_to_message_id'' \<mapsto> PString (getMessageId d),
             ''text'' \<mapsto> PString message',
             ''parse_mode'' \<mapsto> PString parse_mode]) # rest"
    if "update_type d = ''message'' \<or> update_type d = ''photo'' \<or> update_type d = ''document''"
    for d message' parse_mode options
    by (simp add: issued_def reply_direct [OF that] split: sum.splits)
  have direct: "update_type c = ''message'' \<or> update_type c = ''photo'' \<or> update_type c = ''document'' \<longrightarrow>
      (\<exists>rest. issued (reply api c message' parse_mode options) w =
         SendMessage (bot_api (bot c))
           (options ++
            [''chat_id'' \<mapsto> PString (getChatId c),
             ''reply_to_message_id'' \<mapsto> PString (getMessageId c),
             ''text'' \<mapsto> PString message',
             ''parse_mode'' \<mapsto> PString parse_mode]) # rest)
      \<and> (\<forall>r. api (calls w) (SendMessage (bot_api (bot c))
           (options ++
            [''chat_id'' \<mapsto> PString (getChatId c),
             ''reply_to_message_id'' \<mapsto> PString (getMessageId c),
             ''text'' \<mapsto> PString message',
             ''parse_mode'' \<mapsto> PString parse_mode])) = Inr r \<longrightarrow>
           reply api c message' parse_mode options w =
             (Inr (Some r), w\<lparr>calls := calls w @ [SendMessage (bot_api (bot c))
               (options ++
                [''chat_id'' \<mapsto> PString (getChatId c),
                 ''reply_to_message_id'' \<mapsto> PString (getMessageId c),
                 ''text'' \<mapsto> PString message',
                 ''parse_mode'' \<mapsto> PString parse_mode])]\<rparr>))"
    using first_call reply_direct_issued_ok by blast
  have business: "\<forall>bm. update_type c = ''business_message'' \<and> business_message (update c) = Some bm \<longrightarrow>
      issued (reply api c message' parse_mode options) w =
        [SendMessage (bot_api (bot c))
           [''chat_id'' \<mapsto> PString (getChatId c),
            ''text'' \<mapsto> PString message',
            ''business_connection_id'' \<mapsto> PString (business_connection_id bm),
            ''parse_mode'' \<mapsto> PString parse_mode]]"
    by (simp add: reply_business_issued business_connection_id_or_empty_def)
  have callback: "\<forall>q. update_type c = ''callback'' \<and> callback_query (update c) = Some q
          \<and> chat_id (chat (callback_message q)) \<noteq> 0 \<longrightarrow>
      issued (reply api c message' parse_mode options) w =
        [SendMessage (bot_api (bot c))
           (options ++
            [''chat_id'' \<mapsto> PString (toString (chat_id (chat (callback_message q)))),
             ''text'' \<mapsto> PString message',
             ''parse_mode'' \<mapsto> PString parse_mode])]
      \<and> (options ++
            [''chat_id'' \<mapsto> PString (toString (chat_id (chat (callback_message q)))),
             ''text'' \<mapsto> PString message',
             ''parse_mode'' \<mapsto> PString parse_mode]) ''reply_to_message_id'' =
          options ''reply_to_message_id''"
  proof (intro allI impI conjI)
    fix q
    assume q: "update_type c = ''callback'' \<and> callback_query (update c) = Some q
          \<and> chat_id (chat (callback_message q)) \<noteq> 0"
    then have "callback_chat_id c = Some (chat_id (chat (callback_message q)))"
      by (simp add: callback_chat_id_def)
    with q show "issued (reply api c message' parse_mode options) w =
        [SendMessage (bot_api (bot c))
           (options ++
            [''chat_id'' \<mapsto> PString (toString (chat_id (chat (callback_message q)))),
             ''text'' \<mapsto> PString message',
             ''parse_mode'' \<mapsto> PString parse_mode])]"
      using reply_callback_issued by blast
    show "(options ++
            [''chat_id'' \<mapsto> PString (toString (chat_id (chat (callback_message q)))),
             ''text'' \<mapsto> PString message',
             ''parse_mode'' \<mapsto> PString parse_mode]) ''reply_to_message_id'' =
          options ''reply_to_message_id''"
      by simp
  qed
  have unaddressed: "\<forall>q. update_type c = ''callback'' \<and> callback_query (update c) = Some q
          \<and> chat_id (chat (callback_message q)) = 0 \<longrightarrow>
      reply api c message' parse_mode options w = (Inr None, w)"
    by (simp add: reply_callback_unaddressed callback_chat_id_def truthy_number_def)
  have inline: "update_type c = ''inline'' \<longrightarrow>
      reply api c message' parse_mode options w =
        replyInline api c ''Response'' message' parse_mode w"
    by (simp add: reply_inline)
  have other: "update_type c \<noteq> ''message'' \<and> update_type c \<noteq> ''photo'' \<and> update_type c \<noteq> ''document''
        \<and> update_type c \<noteq> ''business_message'' \<and> update_type c \<noteq> ''callback''
        \<and> update_type c \<noteq> ''inline'' \<longrightarrow>
      reply api c message' parse_mode options w = (Inr None, w)"
    by (simp add: reply_other)
  have kind: "update_type (new_context b text_update) = ''message''"
    by (rule example_kinds)
  have scenario: "\<exists>rest. issued (reply api (new_context b text_update) ''hi'' ''HTML'' Map.empty) w =
         SendMessage (bot_api b)
           [''chat_id'' \<mapsto> PString ''42'', ''reply_to_message_id'' \<mapsto> PString ''7'',
            ''text'' \<mapsto> PString ''hi'', ''parse_mode'' \<mapsto> PString ''HTML''] # rest"
    using first_call [of "new_context b text_update" "''hi''" "''HTML''" Map.empty] kind
    by (simp add: text_update_ids new_context_bot)
  from direct business callback unaddressed inline other kind scenario
  show ?thesis by blast
qed

text \<open>
  The scenario of the claim with an API that answers: one call, with the mapping of
  the claim, and its response is returned.
\<close>

theorem reply_routing_witness:
  "update_type (new_context example_bot text_update) = ''message'' \<and>
   reply api_ok (new_context example_bot text_update) ''hi'' ''HTML'' Map.empty no_history =
     (Inr (Some (Response ''ok'')),
      \<lparr>calls = [SendMessage ''https://api.telegram.org/bot''
           [''chat_id'' \<mapsto> PString ''42'', ''reply_to_message_id'' \<mapsto> PString ''7'',
            ''text'' \<mapsto> PString ''hi'', ''parse_mode'' \<mapsto> PString ''HTML'']],
       console = []\<rparr>)"
proof -
  have kind: "update_type (new_context example_bot text_update) = ''message''"
    by (rule example_kinds)
  have answers: "api_ok (calls no_history) k = Inr (Response ''ok'')" for k
    by (simp add: api_ok_def)
  show ?thesis
    using reply_routing [of "new_context example_bot text_update" api_ok "''hi''" "''HTML''"
        Map.empty no_history example_bot]
    by (simp add: kind answers text_update_ids example_bot_url) (simp add: no_history_def)
qed

text \<open>
  C10: on a context of kind \<open>business_message\<close>, \<open>reply\<close> issues one \<open>sendMessage\<close>
  whose mapping has exactly the keys \<open>chat_id\<close>, \<open>text\<close>, \<open>business_connection_id\<close> and
  \<open>parse_mode\<close>; the options do not reach it, so the operation behaves as with no
  options. On \<open>message\<close>, \<open>photo\<close> and \<open>document\<close>, and on \<open>callback\<close> when the branch
  sends, every option whose key the branch does not set itself is in the mapping.
\<close>

theorem reply_business_drops_options:
  "(update_type c = ''business_message'' \<longrightarrow>
      (\<exists>p. issued (reply api c message' parse_mode options) w = [SendMessage (bot_api (bot c)) p]
         \<and> dom p = {''chat_id'', ''text'', ''business_connection_id'', ''parse_mode''})
      \<and> reply api c message' parse_mode options w = reply api c message' parse_mode Map.empty w)
   \<and> (update_type c = ''message'' \<or> update_type c = ''photo'' \<or> update_type c = ''document'' \<longrightarrow>
      (\<exists>p rest. issued (reply api c message' parse_mode options) w =
           SendMessage (bot_api (bot c)) p # rest
         \<and> (\<forall>k. k \<notin> {''chat_id'', ''reply_to_message_id'', ''text'', ''parse_mode''} \<longrightarrow>
                p k = options k)))
   \<and> (\<forall>q. update_type c = ''callback'' \<and> callback_query (update c) = Some q
          \<and> chat_id (chat (callback_message q)) \<noteq> 0 \<longrightarrow>
      (\<exists>p. issued (reply api c message' parse_mode options) w = [SendMessage (bot_api (bot c)) p]
         \<and> (\<forall>k. k \<notin> {''chat_id'', ''text'', ''parse_mode''} \<longrightarrow> p k = options k)))"
proof (intro conjI impI allI)
  assume kind: "update_type c = ''business_message''"
  show "\<exists>p. issued (reply api c message' parse_mode options) w = [SendMessage (bot_api (bot c)) p]
         \<and> dom p = {''chat_id'', ''text'', ''business_connection_id'', ''parse_mode''}"
    by (simp add: reply_business_issued [OF kind]) blast
  show "reply api c message' parse_mode options w = reply api c message' parse_mode Map.empty w"
    by (simp only: reply_business [OF kind])
next
  assume kind: "update_type c = ''message'' \<or> update_type c = ''photo'' \<or> update_type c = ''document''"
  have "\<exists>rest. issued (reply api c message' parse_mode options) w =
         SendMessage (bot_api (bot c))
           (options ++
            [''chat_id'' \<mapsto> PString (getChatId c),
             ''reply_to_message_id'' \<mapsto> PString (getMessageId c),
             ''text'' \<mapsto> PString message',
             ''parse_mode'' \<mapsto> PString parse_mode]) # rest"
    by (simp add: issued_def reply_direct [OF kind] split: sum.splits)
  then obtain rest where "issued (reply api c message' parse_mode options) w =
         SendMessage (bot_api (bot c))
           (options ++
            [''chat_id'' \<mapsto> PString (getChatId c),
             ''reply_to_message_id'' \<mapsto> PString (getMessageId c),
             ''text'' \<mapsto> PString message',
             ''parse_mode'' \<mapsto> PString parse_mode]) # rest"
    by blast
  moreover have "\<forall>k. k \<notin> {''chat_id'', ''reply_to_message_id'', ''text'', ''parse_mode''} \<longrightarrow>
      (options ++
            [''chat_id'' \<mapsto> PString (getChatId c),
             ''reply_to_message_id'' \<mapsto> PString (getMessageId c),
             ''text'' \<mapsto> PString message',
             ''parse_mode'' \<mapsto> PString parse_mode]) k = options k"
    by simp
  ultimately show "\<exists>p rest. issued (reply api c message' parse_mode options) w =
           SendMessage (bot_api (bot c)) p # rest
         \<and> (\<forall>k. k \<notin> {''chat_id'', ''reply_to_message_id'', ''text'', ''parse_mode''} \<longrightarrow>
                p k = options k)"
    by blast
next
  fix q
  assume q: "update_type c = ''callback'' \<and> callback_query (update c) = Some q
          \<and> chat_id (chat (callback_message q)) \<noteq> 0"
  then have "callback_chat_id c = Some (chat_id (chat (callback_message q)))"
    by (simp add: callback_chat_id_def)
  with q have "issued (reply api c message' parse_mode options) w =
        [SendMessage (bot_api (bot c))
           (options ++
            [''chat_id'' \<mapsto> PString (toString (chat_id (chat (callback_message q)))),
             ''text'' \<mapsto> PString message',
             ''parse_mode'' \<mapsto> PString parse_mode])]"
    using reply_callback_issued by blast
  moreover have "\<forall>k. k \<notin> {''chat_id'', ''text'', ''parse_mode''} \<longrightarrow>
      (options ++
            [''chat_id'' \<mapsto> PString (toString (chat_id (chat (callback_message q)))),
             ''text'' \<mapsto> PString message',
             ''parse_mode'' \<mapsto> PString parse_mode]) k = options k"
    by simp
  ultimately show "\<exists>p. issued (reply api c message' parse_mode options) w =
           [SendMessage (bot_api (bot c)) p]
         \<and> (\<forall>k. k \<notin> {''chat_id'', ''text'', ''parse_mode''} \<longrightarrow> p k = options k)"
    by blast
qed

text \<open>
  A reply to the business message in chat 9 with the option \<open>disable_notification\<close>
  gives the same world as the reply with no options.
\<close>

theorem reply_business_drops_options_witness:
  "update_type (new_context example_bot business_update) = ''business_message'' \<and>
   reply api_ok (new_context example_bot business_update) ''hi'' []
       [''disable_notification'' \<mapsto> PBoolean True] no_history =
     reply api_ok (new_context example_bot business_update) ''hi'' [] Map.empty no_history"
proof -
  have kind: "update_type (new_context example_bot business_update) = ''business_message''"
    by (rule example_kinds)
  show ?thesis
    using reply_business_drops_options [of "new_context example_bot business_update" api_ok
        "''hi''" "[]" "[''disable_notification'' \<mapsto> PBoolean True]" no_history]
    by (simp add: kind)
qed

text \<open>
  C5: on a context of kind \<open>message\<close>, when the \<open>sendMessage\<close> of \<open>reply\<close> throws, \<open>reply\<close>
  returns null and raises nothing; after the failed call it issues exactly one more
  call, the notification with the fixed text and the same chat id; the first failure is
  logged, and when the notification throws as well that failure is logged after it.
\<close>

theorem reply_failure_notifies_once:
  assumes "update_type c = ''message''"
    and "api (calls w) (SendMessage (bot_api (bot c))
           (options ++
            [''chat_id'' \<mapsto> PString (getChatId c),
             ''reply_to_message_id'' \<mapsto> PString (getMessageId c),
             ''text'' \<mapsto> PString message',
             ''parse_mode'' \<mapsto> PString parse_mode])) = Inl e"
  shows "fst (reply api c message' parse_mode options w) = Inr None
   \<and> issued (reply api c message' parse_mode options) w =
        [SendMessage (bot_api (bot c))
           (options ++
            [''chat_id'' \<mapsto> PString (getChatId c),
             ''reply_to_message_id'' \<mapsto> PString (getMessageId c),
             ''text'' \<mapsto> PString message',
             ''parse_mode'' \<mapsto> PString parse_mode]),
         SendMessage (bot_api (bot c))
           [''chat_id'' \<mapsto> PString (getChatId c),
            ''text'' \<mapsto> PString message_failed_text,
            ''parse_mode'' \<mapsto> PString []]]
   \<and> (\<forall>e'. api (calls w @ [SendMessage (bot_api (bot c))
           (options ++
            [''chat_id'' \<mapsto> PString (getChatId c),
             ''reply_to_message_id'' \<mapsto> PString (getMessageId c),
             ''text'' \<mapsto> PString message',
             ''parse_mode'' \<mapsto> PString parse_mode])])
          (SendMessage (bot_api (bot c))
           [''chat_id'' \<mapsto> PString (getChatId c),
            ''text'' \<mapsto> PString message_failed_text,
            ''parse_mode'' \<mapsto> PString []]) = Inl e' \<longrightarrow>
        console (snd (reply api c message' parse_mode options w)) =
          console w @ [(''Error in reply:'', e), (''Failed to send error message:'', e')])
   \<and> (\<forall>r. api (calls w @ [SendMessage (bot_api (bot c))
           (options ++
            [''chat_id'' \<mapsto> PString (getChatId c),
             ''reply_to_message_id'' \<mapsto> PString (getMessageId c),
             ''text'' \<mapsto> PString message',
             ''parse_mode'' \<mapsto> PString parse_mode])])
          (SendMessage (bot_api (bot c))
           [''chat_id'' \<mapsto> PString (getChatId c),
            ''text'' \<mapsto> PString message_failed_text,
            ''parse_mode'' \<mapsto> PString []]) = Inr r \<longrightarrow>
        console (snd (reply api c message' parse_mode options w)) =
          console w @ [(''Error in reply:'', e)])"
proof -
  from assms(1)
  have kind: "update_type c = ''message'' \<or> update_type c = ''photo'' \<or> update_type c = ''document''"
    by simp
  show ?thesis
    unfolding reply_direct_failed [where api = api and w = w, OF kind assms(2)] issued_def
      chat_notification_def
    by simp
qed

text \<open>
  On the text message in chat 42 with the API down: two calls, two log lines, null.
\<close>

theorem reply_failure_notifies_once_witness:
  "update_type (new_context example_bot text_update) = ''message'' \<and>
   fst (reply api_down (new_context example_bot text_update) ''hi'' ''HTML'' Map.empty no_history) =
     Inr None \<and>
   issued (reply api_down (new_context example_bot text_update) ''hi'' ''HTML'' Map.empty) no_history =
     [SendMessage ''https://api.telegram.org/bot''
        [''chat_id'' \<mapsto> PString ''42'', ''reply_to_message_id'' \<mapsto> PString ''7'',
         ''text'' \<mapsto> PString ''hi'', ''parse_mode'' \<mapsto> PString ''HTML''],
      SendMessage ''https://api.telegram.org/bot''
        [''chat_id'' \<mapsto> PString ''42'', ''text'' \<mapsto> PString message_failed_text,
         ''parse_mode'' \<mapsto> PString []]] \<and>
   console (snd (reply api_down (new_context example_bot text_update) ''hi'' ''HTML'' Map.empty
       no_history)) =
     [(''Error in reply:'', Error ''network''), (''Failed to send error message:'', Error ''network'')]"
proof -
  have kind: "update_type (new_context example_bot text_update) = ''message''"
    by (rule example_kinds)
  have down: "api_down h k = Inl (Error ''network'')" for h k
    by (simp add: api_down_def)
  have quiet: "console no_history = []"
    by (simp add: no_history_def)
  show ?thesis
    using reply_failure_notifies_once [where c = "new_context example_bot text_update"
        and api = api_down and w = no_history and message' = "''hi''" and parse_mode = "''HTML''"
        and options = Map.empty and e = "Error ''network''", OF kind down]
    by (simp add: kind down quiet text_update_ids example_bot_url)
qed

subsection \<open>The failure notification and file fetches\<close>

lemma sendErrorMessage_direct:
  assumes "update_type c = ''message'' \<or> update_type c = ''photo'' \<or> update_type c = ''document''"
  shows "sendErrorMessage api c t w =
     (case api (calls w) (chat_notification c t) of
        Inr r \<Rightarrow> (Inr (Some r), w\<lparr>calls := calls w @ [chat_notification c t]\<rparr>)
      | Inl e \<Rightarrow> (Inr None, w\<lparr>calls := calls w @ [chat_notification c t],
           console := console w @ [(''Failed to send error message:'', e)]\<rparr>))"
  using assms
  by (auto simp add: sendErrorMessage_def io_defs chat_notification_def split: sum.splits)

lemma sendErrorMessage_business:
  assumes "update_type c = ''business_message''"
  shows "sendErrorMessage api c t w =
     (case api (calls w) (business_notification c t) of
        Inr r \<Rightarrow> (Inr (Some r), w\<lparr>calls := calls w @ [business_notification c t]\<rparr>)
      | Inl e \<Rightarrow> (Inr None, w\<lparr>calls := calls w @ [business_notification c t],
           console := console w @ [(''Failed to send error message:'', e)]\<rparr>))"
  using assms
  by (auto simp add: sendErrorMessage_def io_defs business_notification_def split: sum.splits)

lemma sendErrorMessage_callback:
  assumes "update_type c = ''callback''" and "callback_chat_id c = Some i" and "i \<noteq> 0"
  shows "sendErrorMessage api c t w =
     (case api (calls w) (SendMessage (bot_api (bot c))
             [''chat_id'' \<mapsto> PString (toString i), ''text'' \<mapsto> PString t,
              ''parse_mode'' \<mapsto> PString []]) of
        Inr r \<Rightarrow> (Inr (Some r), w\<lparr>calls := calls w @ [SendMessage (bot_api (bot c))
             [''chat_id'' \<mapsto> PString (toString i), ''text'' \<mapsto> PString t,
              ''parse_mode'' \<mapsto> PString []]]\<rparr>)
      | Inl e \<Rightarrow> (Inr None, w\<lparr>calls := calls w @ [SendMessage (bot_api (bot c))
             [''chat_id'' \<mapsto> PString (toString i), ''text'' \<mapsto> PString t,
              ''parse_mode'' \<mapsto> PString []]],
           console := console w @ [(''Failed to send error message:'', e)]\<rparr>))"
  using assms
  by (auto simp add: sendErrorMessage_def io_defs truthy_number_def split: sum.splits)

lemma sendErrorMessage_unaddressed:
  assumes "update_type c \<noteq> ''message''" and "update_type c \<noteq> ''photo''"
    and "update_type c \<noteq> ''document''" and "update_type c \<noteq> ''business_message''"
    and "update_type c \<noteq> ''callback'' \<or> \<not> truthy_number (callback_chat_id c)"
  shows "sendErrorMessage api c t w = (Inr None, w)"
  using assms by (auto simp add: sendErrorMessage_def io_defs)

lemma sendErrorMessage_never_throws: "\<exists>v w'. sendErrorMessage api c t w = (Inr v, w')"
  by (auto simp add: sendErrorMessage_def io_defs split: sum.splits)

lemma getFile_ok:
  assumes "api (calls w) (GetFile (bot_api (bot c)) [''file_id'' \<mapsto> PString file_id]
             (bot_token (bot c))) = Inr r"
  shows "getFile api c file_id w =
     (Inr r, w\<lparr>calls := calls w @ [GetFile (bot_api (bot c)) [''file_id'' \<mapsto> PString file_id]
             (bot_token (bot c))]\<rparr>)"
  using assms by (simp add: getFile_def io_defs)

lemma getFile_failed:
  assumes "api (calls w) (GetFile (bot_api (bot c)) [''file_id'' \<mapsto> PString file_id]
             (bot_token (bot c))) = Inl e"
  shows "getFile api c file_id w =
     (Inl e, snd (sendErrorMessage api c file_failed_text
        (w\<lparr>calls := calls w @ [GetFile (bot_api (bot c)) [''file_id'' \<mapsto> PString file_id]
             (bot_token (bot c))],
           console := console w @ [(''Error in getFile:'', e)]\<rparr>)))"
proof -
  obtain v w' where "sendErrorMessage api c file_failed_text
        (w\<lparr>calls := calls w @ [GetFile (bot_api (bot c)) [''file_id'' \<mapsto> PString file_id]
             (bot_token (bot c))],
           console := console w @ [(''Error in getFile:'', e)]\<rparr>) = (Inr v, w')"
    using sendErrorMessage_never_throws by blast
  with assms show ?thesis
    by (simp add: getFile_def io_defs)
qed

lemma getFile_failed_direct:
  assumes "update_type c = ''message'' \<or> update_type c = ''photo'' \<or> update_type c = ''document''"
    and "api (calls w) (GetFile (bot_api (bot c)) [''file_id'' \<mapsto> PString file_id]
             (bot_token (bot c))) = Inl e"
  shows "getFile api c file_id w =
     (Inl e, w\<lparr>calls := calls w @
          [GetFile (bot_api (bot c)) [''file_id'' \<mapsto> PString file_id] (bot_token (bot c)),
           chat_notification c file_failed_text],
        console := console w @ (''Error in getFile:'', e) #
          (case api (calls w @ [GetFile (bot_api (bot c)) [''file_id'' \<mapsto> PString file_id]
                  (bot_token (bot c))])
                (chat_notification c file_failed_text) of
             Inr r \<Rightarrow> []
           | Inl e' \<Rightarrow> [(''Failed to send error message:'', e')])\<rparr>)"
  by (simp add: getFile_failed [where api = api and w = w, OF assms(2)]
      sendErrorMessage_direct [OF assms(1)] split: sum.splits)

lemma getFile_failed_business:
  assumes "update_type c = ''business_message''"
    and "api (calls w) (GetFile (bot_api (bot c)) [''file_id'' \<mapsto> PString file_id]
             (bot_token (bot c))) = Inl e"
  shows "getFile api c file_id w =
     (Inl e, w\<lparr>calls := calls w @
          [GetFile (bot_api (bot c)) [''file_id'' \<mapsto> PString file_id] (bot_token (bot c)),
           business_notification c file_failed_text],
        console := console w @ (''Error in getFile:'', e) #
          (case api (calls w @ [GetFile (bot_api (bot c)) [''file_id'' \<mapsto> PString file_id]
                  (bot_token (bot c))])
                (business_notification c file_failed_text) of
             Inr r \<Rightarrow> []
           | Inl e' \<Rightarrow> [(''Failed to send error message:'', e')])\<rparr>)"
  by (simp add: getFile_failed [where api = api and w = w, OF assms(2)]
      sendErrorMessage_business [OF assms(1)] split: sum.splits)

lemma getFile_failed_callback:
  assumes "update_type c = ''callback''" and "callback_chat_id c = Some i" and "i \<noteq> 0"
    and "api (calls w) (GetFile (bot_api (bot c)) [''file_id'' \<mapsto> PString file_id]
             (bot_token (bot c))) = Inl e"
  shows "getFile api c file_id w =
     (Inl e, w\<lparr>calls := calls w @
          [GetFile (bot_api (bot c)) [''file_id'' \<mapsto> PString file_id] (bot_token (bot c)),
           SendMessage (bot_api (bot c))
             [''chat_id'' \<mapsto> PString (toString i), ''text'' \<mapsto> PString file_failed_text,
              ''parse_mode'' \<mapsto> PString []]],
        console := console w @ (''Error in getFile:'', e) #
          (case api (calls w @ [GetFile (bot_api (bot c)) [''file_id'' \<mapsto> PString file_id]
                  (bot_token (bot c))])
                (SendMessage (bot_api (bot c))
                  [''chat_id'' \<mapsto> PString (toString i), ''text'' \<mapsto> PString file_failed_text,
                   ''parse_mode'' \<mapsto> PString []]) of
             Inr r \<Rightarrow> []
           | Inl e' \<Rightarrow> [(''Failed to send error message:'', e')])\<rparr>)"
  by (simp add: getFile_failed [where api = api and w = w, OF assms(4)]
      sendErrorMessage_callback [OF assms(1,2,3)] split: sum.splits)

lemma getFile_failed_unaddressed:
  assumes "update_type c \<noteq> ''message''" and "update_type c \<noteq> ''photo''"
    and "update_type c \<noteq> ''document''" and "update_type c \<noteq> ''business_message''"
    and "update_type c \<noteq> ''callback'' \<or> \<not> truthy_number (callback_chat_id c)"
    and "api (calls w) (GetFile (bot_api (bot c)) [''file_id'' \<mapsto> PString file_id]
             (bot_token (bot c))) = Inl e"
  shows "getFile api c file_id w =
     (Inl e, w\<lparr>calls := calls w @
          [GetFile (bot_api (bot c)) [''file_id'' \<mapsto> PString file_id] (bot_token (bot c))],
        console := console w @ [(''Error in getFile:'', e)]\<rparr>)"
  by (simp add: getFile_failed [where api = api and w = w, OF assms(6)]
      sendErrorMessage_unaddressed [OF assms(1,2,3,4,5)])

text \<open>
  C6, as stated: on every context a failed \<open>getFile\<close> attempts a failure-notification
  send before it re-raises. On the context of an inline query, with the API down, the
  only call made is the fetch itself: \<open>sendErrorMessage\<close> finds no chat to address and
  sends nothing; the failure is logged and the error re-raised.
\<close>

theorem getFile_inline_counterexample:
  "update_type (new_context example_bot inline_update) = ''inline'' \<and>
   getFile api_down (new_context example_bot inline_update) ''file9'' no_history =
     (Inl (Error ''network''),
      \<lparr>calls = [GetFile ''https://api.telegram.org/bot'' [''file_id'' \<mapsto> PString ''file9'']
          ''secret''],
       console = [(''Error in getFile:'', Error ''network'')]\<rparr>)"
proof -
  have kind: "update_type (new_context example_bot inline_update) = ''inline''"
    by (rule example_kinds)
  have down: "api_down h k = Inl (Error ''network'')" for h k
    by (simp add: api_down_def)
  have token: "bot_token (bot (new_context example_bot inline_update)) = ''secret''"
    by (simp add: new_context_def example_bot_def)
  show ?thesis
    by (simp add: kind getFile_failed_unaddressed [where api = api_down, OF _ _ _ _ _ down]
        example_bot_url token no_history_def)
qed

text \<open>
  C6, amended: when the \<open>getFile\<close> call of the API returns, \<open>getFile\<close> returns that
  response unchanged and does nothing else. When it throws, \<open>getFile\<close> logs the failure
  and in every case raises the very error the API threw; before that it issues exactly
  one notification \<open>sendMessage\<close> with the fixed text when the context has a chat to
  address: by chat id for the kinds \<open>message\<close>, \<open>photo\<close> and \<open>document\<close>, by chat id
  with the business-connection id for \<open>business_message\<close>, and to the chat of the
  callback query's message for \<open>callback\<close> when that chat id is not zero (a failure of
  the notification is logged and changes nothing else). For every other context, that
  is the kinds \<open>inline\<close> and none and \<open>callback\<close> with chat id zero, it issues no
  notification.
\<close>

theorem getFile_notifies_then_rethrows:
  "(\<forall>r. api (calls w) (GetFile (bot_api (bot c)) [''file_id'' \<mapsto> PString file_id]
             (bot_token (bot c))) = Inr r \<longrightarrow>
      getFile api c file_id w =
        (Inr r, w\<lparr>calls := calls w @ [GetFile (bot_api (bot c)) [''file_id'' \<mapsto> PString file_id]
             (bot_token (bot c))]\<rparr>))
   \<and> (\<forall>e. api (calls w) (GetFile (bot_api (bot c)) [''file_id'' \<mapsto> PString file_id]
             (bot_token (bot c))) = Inl e \<longrightarrow>
      fst (getFile api c file_id w) = Inl e
      \<and> (update_type c = ''message'' \<or> update_type c = ''photo'' \<or> update_type c = ''document'' \<longrightarrow>
           snd (getFile api c file_id w) =
             w\<lparr>calls := calls w @
                 [GetFile (bot_api (bot c)) [''file_id'' \<mapsto> PString file_id] (bot_token (bot c)),
                  chat_notification c file_failed_text],
               console := console w @ (''Error in getFile:'', e) #
                 (case api (calls w @ [GetFile (bot_api (bot c))
                          [''file_id'' \<mapsto> PString file_id] (bot_token (bot c))])
                       (chat_notification c file_failed_text) of
                    Inr r \<Rightarrow> []
                  | Inl e' \<Rightarrow> [(''Failed to send error message:'', e')])\<rparr>)
      \<and> (update_type c = ''business_message'' \<longrightarrow>
           snd (getFile api c file_id w) =
             w\<lparr>calls := calls w @
                 [GetFile (bot_api (bot c)) [''file_id'' \<mapsto> PString file_id] (bot_token (bot c)),
                  business_notification c file_failed_text],
               console := console w @ (''Error in getFile:'', e) #
                 (case api (calls w @ [GetFile (bot_api (bot c))
                          [''file_id'' \<mapsto> PString file_id] (bot_token (bot c))])
                       (business_notification c file_failed_text) of
                    Inr r \<Rightarrow> []
                  | Inl e' \<Rightarrow> [(''Failed to send error message:'', e')])\<rparr>)
      \<and> (\<forall>q. update_type c = ''callback'' \<and> callback_query (update c) = Some q
             \<and> chat_id (chat (callback_message q)) \<noteq> 0 \<longrightarrow>
           snd (getFile api c file_id w) =
             w\<lparr>calls := calls w @
                 [GetFile (bot_api (bot c)) [''file_id'' \<mapsto> PString file_id] (bot_token (bot c)),
                  SendMessage (bot_api (bot c))
                    [''chat_id'' \<mapsto> PString (toString (chat_id (chat (callback_message q)))),
                     ''text'' \<mapsto> PString file_failed_text,
                     ''parse_mode'' \<mapsto> PString []]],
               console := console w @ (''Error in getFile:'', e) #
                 (case api (calls w @ [GetFile (bot_api (bot c))
                          [''file_id'' \<mapsto> PString file_id] (bot_token (bot c))])
                       (SendMessage (bot_api (bot c))
                         [''chat_id'' \<mapsto> PString (toString (chat_id (chat (callback_message q)))),
                          ''text'' \<mapsto> PString file_failed_text,
                          ''parse_mode'' \<mapsto> PString []]) of
                    Inr r \<Rightarrow> []
                  | Inl e' \<Rightarrow> [(''Failed to send error message:'', e')])\<rparr>)
      \<and> (update_type c \<noteq> ''message'' \<and> update_type c \<noteq> ''photo''
           \<and> update_type c \<noteq> ''document'' \<and> update_type c \<noteq> ''business_message''
           \<and> (update_type c = ''callback'' \<longrightarrow>
                (\<forall>q. callback_query (update c) = Some q \<longrightarrow>
                   chat_id (chat (callback_message q)) = 0)) \<longrightarrow>
           snd (getFile api c file_id w) =
             w\<lparr>calls := calls w @
                 [GetFile (bot_api (bot c)) [''file_id'' \<mapsto> PString file_id] (bot_token (bot c))],
               console := console w @ [(''Error in getFile:'', e)]\<rparr>))"
proof (intro conjI allI impI)
  fix r
  assume "api (calls w) (GetFile (bot_api (bot c)) [''file_id'' \<mapsto> PString file_id]
             (bot_token (bot c))) = Inr r"
  then show "getFile api c file_id w =
        (Inr r, w\<lparr>calls := calls w @ [GetFile (bot_api (bot c)) [''file_id'' \<mapsto> PString file_id]
             (bot_token (bot c))]\<rparr>)"
    by (rule getFile_ok)
next
  fix e
  assume failed: "api (calls w) (GetFile (bot_api (bot c)) [''file_id'' \<mapsto> PString file_id]
             (bot_token (bot c))) = Inl e"
  show "fst (getFile api c file_id w) = Inl e"
    by (simp add: getFile_failed [where api = api and w = w, OF failed])
  {
    assume kind: "update_type c = ''message'' \<or> update_type c = ''photo'' \<or> update_type c = ''document''"
    show "snd (getFile api c file_id w) =
             w\<lparr>calls := calls w @
                 [GetFile (bot_api (bot c)) [''file_id'' \<mapsto> PString file_id] (bot_token (bot c)),
                  chat_notification c file_failed_text],
               console := console w @ (''Error in getFile:'', e) #
                 (case api (calls w @ [GetFile (bot_api (bot c))
                          [''file_id'' \<mapsto> PString file_id] (bot_token (bot c))])
                       (chat_notification c file_failed_text) of
                    Inr r \<Rightarrow> []
                  | Inl e' \<Rightarrow> [(''Failed to send error message:'', e')])\<rparr>"
      by (simp only: getFile_failed_direct [where api = api and w = w, OF kind failed] snd_conv)
  }
  {
    assume kind: "update_type c = ''business_message''"
    show "snd (getFile api c file_id w) =
             w\<lparr>calls := calls w @
                 [GetFile (bot_api (bot c)) [''file_id'' \<mapsto> PString file_id] (bot_token (bot c)),
                  business_notification c file_failed_text],
               console := console w @ (''Error in getFile:'', e) #
                 (case api (calls w @ [GetFile (bot_api (bot c))
                          [''file_id'' \<mapsto> PString file_id] (bot_token (bot c))])
                       (business_notification c file_failed_text) of
                    Inr r \<Rightarrow> []
                  | Inl e' \<Rightarrow> [(''Failed to send error message:'', e')])\<rparr>"
      by (simp only: getFile_failed_business [where api = api and w = w, OF kind failed] snd_conv)
  }
  {
    fix q
    assume q: "update_type c = ''callback'' \<and> callback_query (update c) = Some q
             \<and> chat_id (chat (callback_message q)) \<noteq> 0"
    then have kind: "update_type c = ''callback''"
      and chat: "callback_chat_id c = Some (chat_id (chat (callback_message q)))"
      and nonzero: "chat_id (chat (callback_message q)) \<noteq> 0"
      by (simp_all add: callback_chat_id_def)
    show "snd (getFile api c file_id w) =
             w\<lparr>calls := calls w @
                 [GetFile (bot_api (bot c)) [''file_id'' \<mapsto> PString file_id] (bot_token (bot c)),
                  SendMessage (bot_api (bot c))
                    [''chat_id'' \<mapsto> PString (toString (chat_id (chat (callback_message q)))),
                     ''text'' \<mapsto> PString file_failed_text,
                     ''parse_mode'' \<mapsto> PString []]],
               console := console w @ (''Error in getFile:'', e) #
                 (case api (calls w @ [GetFile (bot_api (bot c))
                          [''file_id'' \<mapsto> PString file_id] (bot_token (bot c))])
                       (SendMessage (bot_api (bot c))
                         [''chat_id'' \<mapsto> PString (toString (chat_id (chat (callback_message q)))),
                          ''text'' \<mapsto> PString file_failed_text,
                          ''parse_mode'' \<mapsto> PString []]) of
                    Inr r \<Rightarrow> []
                  | Inl e' \<Rightarrow> [(''Failed to send error message:'', e')])\<rparr>"
      by (simp only: getFile_failed_callback [where api = api and w = w,
            OF kind chat nonzero failed] snd_conv)
  }
  {
    assume other: "update_type c \<noteq> ''message'' \<and> update_type c \<noteq> ''photo''
           \<and> update_type c \<noteq> ''document'' \<and> update_type c \<noteq> ''business_message''
           \<and> (update_type c = ''callback'' \<longrightarrow>
                (\<forall>q. callback_query (update c) = Some q \<longrightarrow>
                   chat_id (chat (callback_message q)) = 0))"
    then have unaddressed: "update_type c \<noteq> ''callback'' \<or> \<not> truthy_number (callback_chat_id c)"
      by (auto simp add: truthy_number_iff callback_chat_id_def)
    from other show "snd (getFile api c file_id w) =
             w\<lparr>calls := calls w @
                 [GetFile (bot_api (bot c)) [''file_id'' \<mapsto> PString file_id] (bot_token (bot c))],
               console := console w @ [(''Error in getFile:'', e)]\<rparr>"
      by (simp add: getFile_failed_unaddressed [where api = api and w = w,
            OF _ _ _ _ unaddressed failed])
  }
qed

text \<open>
  A fetch on the text message in chat 42 and on the callback query from chat 5, with the
  API down: the error of the API comes back to the caller after the fetch and one
  notification to the chat; with an API that answers, the response comes back.
\<close>

theorem getFile_notifies_then_rethrows_witness:
  "fst (getFile api_down (new_context example_bot text_update) ''file9'' no_history) =
     Inl (Error ''network'') \<and>
   calls (snd (getFile api_down (new_context example_bot text_update) ''file9'' no_history)) =
     [GetFile ''https://api.telegram.org/bot'' [''file_id'' \<mapsto> PString ''file9''] ''secret'',
      SendMessage ''https://api.telegram.org/bot''
        [''chat_id'' \<mapsto> PString ''42'', ''text'' \<mapsto> PString file_failed_text,
         ''parse_mode'' \<mapsto> PString []]] \<and>
   calls (snd (getFile api_down (new_context example_bot callback_update) ''file9'' no_history)) =
     [GetFile ''https://api.telegram.org/bot'' [''file_id'' \<mapsto> PString ''file9''] ''secret'',
      SendMessage ''https://api.telegram.org/bot''
        [''chat_id'' \<mapsto> PString ''5'', ''text'' \<mapsto> PString file_failed_text,
         ''parse_mode'' \<mapsto> PString []]] \<and>
   getFile api_ok (new_context example_bot text_update) ''file9'' no_history =
     (Inr (Response ''ok''),
      \<lparr>calls = [GetFile ''https://api.telegram.org/bot'' [''file_id'' \<mapsto> PString ''file9'']
          ''secret''],
       console = []\<rparr>)"
proof -
  have kind: "update_type (new_context example_bot text_update) = ''message''"
    by (rule example_kinds)
  have callback: "update_type (new_context example_bot callback_update) = ''callback''"
    by (rule example_kinds)
  have query: "callback_query (update (new_context example_bot callback_update)) =
      Some \<lparr>callback_query_id = ''cb1'',
        callback_message = \<lparr>message_id = 3, chat = \<lparr>chat_id = 5\<rparr>, message_text = None,
                             photo = None, document = None\<rparr>\<rparr>"
    by (simp add: new_context_def callback_update_def)
  have down: "api_down h k = Inl (Error ''network'')" for h k
    by (simp add: api_down_def)
  have answers: "api_ok h k = Inr (Response ''ok'')" for h k
    by (simp add: api_ok_def)
  have token: "bot_token (bot (new_context example_bot u)) = ''secret''" for u
    by (simp add: new_context_def example_bot_def)
  have quiet: "calls no_history = []"
    by (simp add: no_history_def)
  show ?thesis
    using getFile_notifies_then_rethrows [of api_down no_history
        "new_context example_bot text_update" "''file9''"]
      getFile_notifies_then_rethrows [of api_down no_history
        "new_context example_bot callback_update" "''file9''"]
      getFile_notifies_then_rethrows [of api_ok no_history
        "new_context example_bot text_update" "''file9''"]
    by (simp add: kind callback query down answers token quiet example_bot_url text_update_ids
        chat_notification_def toString_5)
      (simp add: no_history_def)
qed

subsection \<open>The chat id\<close>

lemma getChatId_message:
  assumes "message (update c) = Some m" and "chat_id (chat m) \<noteq> 0"
  shows "getChatId c = toString (chat_id (chat m))"
  using assms by (simp add: getChatId_def truthy_number_def)

lemma getChatId_business:
  assumes "\<forall>m. message (update c) = Some m \<longrightarrow> chat_id (chat m) = 0"
    and "business_message (update c) = Some bm" and "chat_id (business_chat bm) \<noteq> 0"
  shows "getChatId c = toString (chat_id (business_chat bm))"
  using assms by (cases "message (update c)") (simp_all add: getChatId_def truthy_number_def)

lemma getChatId_empty_iff:
  "getChatId c = [] \<longleftrightarrow>
     (\<forall>m. message (update c) = Some m \<longrightarrow> chat_id (chat m) = 0) \<and>
     (\<forall>bm. business_message (update c) = Some bm \<longrightarrow> chat_id (business_chat bm) = 0)"
  by (cases "message (update c)"; cases "business_message (update c)")
    (simp_all add: getChatId_def truthy_number_def toString_not_empty)

lemma direct_kind_has_message:
  assumes "update_type (new_context b u) = ''message'' \<or> update_type (new_context b u) = ''photo''
     \<or> update_type (new_context b u) = ''document''"
  shows "\<exists>m. message u = Some m"
  using assms by (auto simp add: new_context_def classifier_chain split: if_splits)

text \<open>
  C7, as stated: for every kind other than \<open>message\<close>, \<open>photo\<close>, \<open>document\<close> and
  \<open>business_message\<close> the chat id is the empty string, and for a \<open>message\<close>-kind
  context it is \<open>message.chat.id\<close> stringified. A message with neither text nor photo
  nor document (a sticker) in chat 42 gives a context of kind none whose chat id is
  \<open>"42"\<close>; and a text message whose chat id is 0 gives a \<open>message\<close>-kind context whose
  chat id is the empty string, not \<open>"0"\<close>.
\<close>

theorem getChatId_counterexample:
  "update_type (new_context example_bot sticker_update) = [] \<and>
   getChatId (new_context example_bot sticker_update) = ''42'' \<and>
   update_type (new_context example_bot zero_chat_update) = ''message'' \<and>
   getChatId (new_context example_bot zero_chat_update) = [] \<and>
   toString 0 = ''0''"
  by (simp add: example_kinds)
    (simp add: getChatId_def new_context_def sticker_update_def zero_chat_update_def
      truthy_number_def toString_42 toString_eval del: digits.simps)

text \<open>
  C7, amended: \<open>getChatId\<close> is total and decides by the fields of the update, not by the
  kind. Whenever the update has a message whose chat id is not zero, the result is that
  chat id stringified; the update of a context of kind \<open>message\<close>, \<open>photo\<close> or
  \<open>document\<close> always has a message. Otherwise, when the update has a business message
  whose chat id is not zero, the result is that chat id stringified; the update of a
  context of kind \<open>business_message\<close> always has a business message. The result is the
  empty string exactly when the update has neither.
\<close>

theorem getChatId_by_fields:
  "(\<forall>m. message (update c) = Some m \<and> chat_id (chat m) \<noteq> 0 \<longrightarrow>
      getChatId c = toString (chat_id (chat m)))
   \<and> (update_type (new_context b u) = ''message'' \<or> update_type (new_context b u) = ''photo''
        \<or> update_type (new_context b u) = ''document'' \<longrightarrow> message u \<noteq> None)
   \<and> (\<forall>bm. (\<forall>m. message (update c) = Some m \<longrightarrow> chat_id (chat m) = 0)
        \<and> business_message (update c) = Some bm \<and> chat_id (business_chat bm) \<noteq> 0 \<longrightarrow>
      getChatId c = toString (chat_id (business_chat bm)))
   \<and> (update_type (new_context b u) = ''business_message'' \<longrightarrow> business_message u \<noteq> None)
   \<and> (getChatId c = [] \<longleftrightarrow>
        (\<forall>m. message (update c) = Some m \<longrightarrow> chat_id (chat m) = 0) \<and>
        (\<forall>bm. business_message (update c) = Some bm \<longrightarrow> chat_id (business_chat bm) = 0))"
proof (intro conjI allI impI)
  fix m
  assume "message (update c) = Some m \<and> chat_id (chat m) \<noteq> 0"
  then show "getChatId c = toString (chat_id (chat m))"
    by (simp add: getChatId_message)
next
  assume "update_type (new_context b u) = ''message'' \<or> update_type (new_context b u) = ''photo''
        \<or> update_type (new_context b u) = ''document''"
  then show "message u \<noteq> None"
    using direct_kind_has_message by fastforce
next
  fix bm
  assume "(\<forall>m. message (update c) = Some m \<longrightarrow> chat_id (chat m) = 0)
        \<and> business_message (update c) = Some bm \<and> chat_id (business_chat bm) \<noteq> 0"
  then show "getChatId c = toString (chat_id (business_chat bm))"
    by (simp add: getChatId_business)
next
  assume "update_type (new_context b u) = ''business_message''"
  then show "business_message u \<noteq> None"
    using business_kind_has_business_message by fastforce
next
  show "getChatId c = [] \<longleftrightarrow>
        (\<forall>m. message (update c) = Some m \<longrightarrow> chat_id (chat m) = 0) \<and>
        (\<forall>bm. business_message (update c) = Some bm \<longrightarrow> chat_id (business_chat bm) = 0)"
    by (rule getChatId_empty_iff)
qed

text \<open>
  The text message in chat 42, the business message in chat 9 and the inline query.
\<close>

theorem getChatId_by_fields_witness:
  "getChatId (new_context example_bot text_update) = ''42'' \<and>
   getChatId (new_context example_bot business_update) = ''9'' \<and>
   getChatId (new_context example_bot inline_update) = []"
  using getChatId_by_fields [of "new_context example_bot text_update" example_bot text_update]
    getChatId_by_fields [of "new_context example_bot business_update" example_bot business_update]
    getChatId_by_fields [of "new_context example_bot inline_update" example_bot inline_update]
  by (simp add: new_context_update text_update_def business_update_def inline_update_def
      toString_42 toString_9)

subsection \<open>Photo, video and inline replies\<close>

lemma replyPhoto_direct:
  assumes "update_type c = ''photo'' \<or> update_type c = ''message''"
  shows "replyPhoto api c photo' caption options w =
     (case api (calls w) (SendPhoto (bot_api (bot c))
             (options ++
              [''chat_id'' \<mapsto> PString (getChatId c),
               ''reply_to_message_id'' \<mapsto> PString (getMessageId c),
               ''photo'' \<mapsto> PString photo',
               ''caption'' \<mapsto> PString caption])) of
        Inr r \<Rightarrow>
          (Inr (Some r), w\<lparr>calls := calls w @ [SendPhoto (bot_api (bot c))
             (options ++
              [''chat_id'' \<mapsto> PString (getChatId c),
               ''reply_to_message_id'' \<mapsto> PString (getMessageId c),
               ''photo'' \<mapsto> PString photo',
               ''caption'' \<mapsto> PString caption])]\<rparr>)
      | Inl e \<Rightarrow>
          (Inr None, w\<lparr>calls := calls w @ [SendPhoto (bot_api (bot c))
             (options ++
              [''chat_id'' \<mapsto> PString (getChatId c),
               ''reply_to_message_id'' \<mapsto> PString (getMessageId c),
               ''photo'' \<mapsto> PString photo',
               ''caption'' \<mapsto> PString caption]),
             chat_notification c photo_failed_text],
           console := console w @ (''Error in replyPhoto:'', e) #
             (case api (calls w @ [SendPhoto (bot_api (bot c))
                 (options ++
                  [''chat_id'' \<mapsto> PString (getChatId c),
                   ''reply_to_message_id'' \<mapsto> PString (getMessageId c),
                   ''photo'' \<mapsto> PString photo',
                   ''caption'' \<mapsto> PString caption])])
                 (chat_notification c photo_failed_text) of
                Inr r \<Rightarrow> []
              | Inl e' \<Rightarrow> [(''Failed to send error message:'', e')])\<rparr>))"
proof -
  from assms
  have kind: "update_type c = ''message'' \<or> update_type c = ''photo'' \<or> update_type c = ''document''"
    by auto
  from assms show ?thesis
    by (auto simp add: replyPhoto_def io_defs sendErrorMessage_direct [OF kind]
        split: sum.splits)
qed





lemma replyVideo_other:
  assumes "update_type c \<noteq> ''message''" and "update_type c \<noteq> ''inline''"
  shows "replyVideo api c video' options w = (Inr None, w)"
  using assms by (simp add: replyVideo_def io_defs)



text \<open>
  C3: the claim gives \<open>replyVideo\<close> the routing of \<open>replyPhoto\<close>, with a direct send
  for the kinds \<open>photo\<close> and \<open>message\<close>. The switch of \<open>replyVideo\<close> has no case
  \<open>photo\<close>: on the context of a photo message it makes no call and returns null,
  where \<open>replyPhoto\<close> on the same context sends the photo to the chat.
\<close>

theorem replyVideo_skips_photo_kind:
  "update_type (new_context example_bot photo_update) = ''photo'' \<and>
   replyVideo api (new_context example_bot photo_update) video' options w = (Inr None, w) \<and>
   (\<exists>rest. issued (replyPhoto api (new_context example_bot photo_update) photo' caption options) w =
      SendPhoto ''https://api.telegram.org/bot''
        (options ++
         [''chat_id'' \<mapsto> PString ''42'', ''reply_to_message_id'' \<mapsto> PString ''8'',
          ''photo'' \<mapsto> PString photo', ''caption'' \<mapsto> PString caption]) # rest)"
proof -
  have kind: "update_type (new_context example_bot photo_update) = ''photo''"
    by (rule example_kinds)
  have ids: "getChatId (new_context example_bot photo_update) = ''42''"
    "getMessageId (new_context example_bot photo_update) = ''8''"
    by (simp_all add: getChatId_def getMessageId_def new_context_def photo_update_def
        truthy_number_def toString_42 toString_eval del: digits.simps)
  have photo: "update_type (new_context example_bot photo_update) = ''photo''
      \<or> update_type (new_context example_bot photo_update) = ''message''"
    using kind by simp
  have sibling: "\<exists>rest. issued (replyPhoto api (new_context example_bot photo_update) photo' caption options) w =
      SendPhoto ''https://api.telegram.org/bot''
        (options ++
         [''chat_id'' \<mapsto> PString ''42'', ''reply_to_message_id'' \<mapsto> PString ''8'',
          ''photo'' \<mapsto> PString photo', ''caption'' \<mapsto> PString caption]) # rest"
    by (simp add: issued_def replyPhoto_direct [OF photo] ids example_bot_url split: sum.splits)
  have skipped: "replyVideo api (new_context example_bot photo_update) video' options w = (Inr None, w)"
    by (simp add: replyVideo_other kind)
  from kind skipped sibling show ?thesis
    by blast
qed

subsection \<open>Failures of the outbound call\<close>














end
